theory Spec2Isabelle
  imports Complex_Main
begin

section \<open>Python values\<close>

text \<open>
  A Python \<^verbatim>\<open>str\<close> is a sequence of Unicode code points, so it is modelled as a list of
  natural numbers (the code points), not as a list of bytes: \<^verbatim>\<open>str.strip\<close> and the regular
  expression of the template manager classify code points. \<open>py\<close> writes an ASCII literal.
\<close>

type_synonym pystr = "nat list"

abbreviation py :: "string \<Rightarrow> pystr" where
  "py s \<equiv> map of_char s"

text \<open>
  The values that \<^verbatim>\<open>to_dict\<close> produces and \<^verbatim>\<open>from_dict\<close> consumes (and that
  \<^verbatim>\<open>json.loads\<close> returns). A dictionary is an association list with string keys; a lookup
  finds the first entry of a key.
\<close>

datatype pyval =
    PNone
  | PBool bool
  | PInt int
  | PFloat real
  | PStr pystr
  | PList "pyval list"
  | PTuple "pyval list"
  | PDict "(pystr \<times> pyval) list"

text \<open>
  The exceptions of the modelled code, as values. \<open>Unmodelled\<close> is not a Python exception:
  it marks an input at which Python goes on with a value that the typed records below cannot
  hold (a dataclass constructor stores whatever it is given), or at which the library does
  something this development does not describe (\<^verbatim>\<open>float("1.5")\<close> parses the string).
  \<open>OSError\<close> stands for the errors of the operating system other than the
  FileNotFoundError, such as a file name that is too long.
\<close>

datatype py_error =
    ValueError
  | TypeError
  | KeyError
  | IndexError
  | AttributeError
  | ZeroDivisionError
  | FileNotFoundError
  | OSError
  | JSONDecodeError
  | Unmodelled

definition bind :: "py_error + 'a \<Rightarrow> ('a \<Rightarrow> py_error + 'b) \<Rightarrow> py_error + 'b" where
  "bind r f = (case r of Inl e \<Rightarrow> Inl e | Inr v \<Rightarrow> f v)"

text \<open>\<^verbatim>\<open>data.get(key, default)\<close> on a dictionary.\<close>

definition dict_get :: "(pystr \<times> pyval) list \<Rightarrow> pystr \<Rightarrow> pyval \<Rightarrow> pyval" where
  "dict_get d key dflt = (case map_of d key of None \<Rightarrow> dflt | Some v \<Rightarrow> v)"

text \<open>
  \<^verbatim>\<open>float(x)\<close>, \<^verbatim>\<open>int(x)\<close> and \<^verbatim>\<open>bool(x)\<close> on a value. \<^verbatim>\<open>int\<close> of a float
  truncates toward zero.
\<close>

definition trunc :: "real \<Rightarrow> int" where
  "trunc x = (if 0 \<le> x then \<lfloor>x\<rfloor> else \<lceil>x\<rceil>)"

fun py_float :: "pyval \<Rightarrow> py_error + real" where
  "py_float (PFloat x) = Inr x"
| "py_float (PInt i) = Inr (of_int i)"
| "py_float (PBool b) = Inr (if b then 1 else 0)"
| "py_float (PStr s) = Inl Unmodelled"
| "py_float _ = Inl TypeError"

fun py_int :: "pyval \<Rightarrow> py_error + int" where
  "py_int (PInt i) = Inr i"
| "py_int (PFloat x) = Inr (trunc x)"
| "py_int (PBool b) = Inr (if b then 1 else 0)"
| "py_int (PStr s) = Inl Unmodelled"
| "py_int _ = Inl TypeError"

fun py_bool :: "pyval \<Rightarrow> bool" where
  "py_bool PNone = False"
| "py_bool (PBool b) = b"
| "py_bool (PInt i) = (i \<noteq> 0)"
| "py_bool (PFloat x) = (x \<noteq> 0)"
| "py_bool (PStr s) = (s \<noteq> [])"
| "py_bool (PList xs) = (xs \<noteq> [])"
| "py_bool (PTuple xs) = (xs \<noteq> [])"
| "py_bool (PDict d) = (d \<noteq> [])"

text \<open>
  Reading a constructor argument into a typed field. Python checks nothing here; a value of
  another shape than the field's declared type is \<open>Unmodelled\<close>. A list is accepted where
  the field declares a tuple (JSON has no tuples; the code only indexes and unpacks these
  fields), and an int where it declares a float.
\<close>

fun as_str :: "pyval \<Rightarrow> py_error + pystr" where
  "as_str (PStr s) = Inr s"
| "as_str _ = Inl Unmodelled"

fun as_opt_str :: "pyval \<Rightarrow> py_error + pystr option" where
  "as_opt_str PNone = Inr None"
| "as_opt_str (PStr s) = Inr (Some s)"
| "as_opt_str _ = Inl Unmodelled"

fun as_int :: "pyval \<Rightarrow> py_error + int" where
  "as_int (PInt i) = Inr i"
| "as_int _ = Inl Unmodelled"

fun as_opt_int :: "pyval \<Rightarrow> py_error + int option" where
  "as_opt_int PNone = Inr None"
| "as_opt_int (PInt i) = Inr (Some i)"
| "as_opt_int _ = Inl Unmodelled"

fun as_bool :: "pyval \<Rightarrow> py_error + bool" where
  "as_bool (PBool b) = Inr b"
| "as_bool _ = Inl Unmodelled"

fun as_float :: "pyval \<Rightarrow> py_error + real" where
  "as_float (PFloat x) = Inr x"
| "as_float (PInt i) = Inr (of_int i)"
| "as_float _ = Inl Unmodelled"

fun items_of :: "pyval \<Rightarrow> pyval list option" where
  "items_of (PTuple xs) = Some xs"
| "items_of (PList xs) = Some xs"
| "items_of _ = None"

definition as_int_pair :: "pyval \<Rightarrow> py_error + int \<times> int" where
  "as_int_pair v =
     (case items_of v of
        Some [PInt a, PInt b] \<Rightarrow> Inr (a, b)
      | _ \<Rightarrow> Inl Unmodelled)"

definition as_color :: "pyval \<Rightarrow> py_error + int \<times> int \<times> int \<times> int" where
  "as_color v =
     (case items_of v of
        Some [PInt r, PInt g, PInt b, PInt a] \<Rightarrow> Inr (r, g, b, a)
      | _ \<Rightarrow> Inl Unmodelled)"

definition as_float_pair :: "pyval \<Rightarrow> py_error + real \<times> real" where
  "as_float_pair v =
     (case items_of v of
        Some [a, b] \<Rightarrow> bind (as_float a) (\<lambda>x. bind (as_float b) (\<lambda>y. Inr (x, y)))
      | _ \<Rightarrow> Inl Unmodelled)"

text \<open>
  \<^verbatim>\<open>cls(**data)\<close>: \<open>data\<close> must be a dictionary and each of its keys the name of a field,
  or the call raises TypeError.
\<close>

definition kwargs :: "pystr list \<Rightarrow> pyval \<Rightarrow> py_error + (pystr \<times> pyval) list" where
  "kwargs fields data =
     (case data of
        PDict d \<Rightarrow> if list_all (\<lambda>k. k \<in> set fields) (map fst d) then Inr d else Inl TypeError
      | _ \<Rightarrow> Inl TypeError)"

text \<open>\<^verbatim>\<open>data.get\<close> on a value: AttributeError when the value is no dictionary.\<close>

definition get_method :: "pyval \<Rightarrow> py_error + (pystr \<times> pyval) list" where
  "get_method data = (case data of PDict d \<Rightarrow> Inr d | _ \<Rightarrow> Inl AttributeError)"

section \<open>Watermark settings (\<^verbatim>\<open>watermark_settings.py\<close>)\<close>

text \<open>
  \<^verbatim>\<open>class WatermarkType(str, Enum)\<close> and \<^verbatim>\<open>class WatermarkAnchor(str, Enum)\<close>, one
  constructor per member, in the order of the source; \<open>_value\<close> is the member's
  \<^verbatim>\<open>.value\<close> and \<open>_of_value\<close> the call \<^verbatim>\<open>WatermarkType(v)\<close>, which raises ValueError when
  no member has that value.
\<close>

datatype WatermarkType = TEXT | IMAGE

datatype WatermarkAnchor =
    TOP_LEFT | TOP_CENTER | TOP_RIGHT
  | CENTER_LEFT | CENTER | CENTER_RIGHT
  | BOTTOM_LEFT | BOTTOM_CENTER | BOTTOM_RIGHT

fun WatermarkType_value :: "WatermarkType \<Rightarrow> pystr" where
  "WatermarkType_value TEXT = py ''text''"
| "WatermarkType_value IMAGE = py ''image''"

definition WatermarkType_of_value :: "pyval \<Rightarrow> py_error + WatermarkType" where
  "WatermarkType_of_value v =
     (if v = PStr (py ''text'') then Inr TEXT
      else if v = PStr (py ''image'') then Inr IMAGE
      else Inl ValueError)"

fun WatermarkAnchor_value :: "WatermarkAnchor \<Rightarrow> pystr" where
  "WatermarkAnchor_value TOP_LEFT = py ''top_left''"
| "WatermarkAnchor_value TOP_CENTER = py ''top_center''"
| "WatermarkAnchor_value TOP_RIGHT = py ''top_right''"
| "WatermarkAnchor_value CENTER_LEFT = py ''center_left''"
| "WatermarkAnchor_value CENTER = py ''center''"
| "WatermarkAnchor_value CENTER_RIGHT = py ''center_right''"
| "WatermarkAnchor_value BOTTOM_LEFT = py ''bottom_left''"
| "WatermarkAnchor_value BOTTOM_CENTER = py ''bottom_center''"
| "WatermarkAnchor_value BOTTOM_RIGHT = py ''bottom_right''"

definition WatermarkAnchor_of_value :: "pyval \<Rightarrow> py_error + WatermarkAnchor" where
  "WatermarkAnchor_of_value v =
     (if v = PStr (py ''top_left'') then Inr TOP_LEFT
      else if v = PStr (py ''top_center'') then Inr TOP_CENTER
      else if v = PStr (py ''top_right'') then Inr TOP_RIGHT
      else if v = PStr (py ''center_left'') then Inr CENTER_LEFT
      else if v = PStr (py ''center'') then Inr CENTER
      else if v = PStr (py ''center_right'') then Inr CENTER_RIGHT
      else if v = PStr (py ''bottom_left'') then Inr BOTTOM_LEFT
      else if v = PStr (py ''bottom_center'') then Inr BOTTOM_CENTER
      else if v = PStr (py ''bottom_right'') then Inr BOTTOM_RIGHT
      else Inl ValueError)"

text \<open>
  The dataclasses. Field names are those of the source, except that \<^verbatim>\<open>text\<close> is
  \<open>wm_text\<close> and the two \<^verbatim>\<open>opacity\<close> fields carry their class in their name.
  \<^verbatim>\<open>Color = Tuple[int, int, int, int]\<close>.
\<close>

type_synonym Color = "int \<times> int \<times> int \<times> int"

record TextWatermarkSettings =
  wm_text :: pystr
  font_family :: pystr
  font_size :: int
  bold :: bool
  italic :: bool
  color :: Color
  text_opacity :: int
  shadow_enabled :: bool
  outline_enabled :: bool
  outline_width :: int
  shadow_offset :: "int \<times> int"

record ImageWatermarkSettings =
  image_path :: "pystr option"
  scale :: real
  image_opacity :: int

record WatermarkLayout =
  position :: "real \<times> real"
  anchor :: WatermarkAnchor

record WatermarkSettings =
  watermark_type :: WatermarkType
  text_settings :: TextWatermarkSettings
  image_settings :: ImageWatermarkSettings
  rotation :: real
  layout :: WatermarkLayout

text \<open>The field defaults of the dataclasses.\<close>

definition TextWatermarkSettings_default :: TextWatermarkSettings where
  "TextWatermarkSettings_default =
     \<lparr>wm_text = py ''Watermark'', font_family = py ''Arial'', font_size = 32, bold = False,
      italic = False, color = (255, 255, 255, 255), text_opacity = 80, shadow_enabled = False,
      outline_enabled = False, outline_width = 2, shadow_offset = (2, 2)\<rparr>"

definition ImageWatermarkSettings_default :: ImageWatermarkSettings where
  "ImageWatermarkSettings_default = \<lparr>image_path = None, scale = 0.25, image_opacity = 70\<rparr>"

definition WatermarkLayout_default :: WatermarkLayout where
  "WatermarkLayout_default = \<lparr>position = (0.5, 0.5), anchor = CENTER\<rparr>"

definition WatermarkSettings_default :: WatermarkSettings where
  "WatermarkSettings_default =
     \<lparr>watermark_type = TEXT, text_settings = TextWatermarkSettings_default,
      image_settings = ImageWatermarkSettings_default, rotation = 0,
      layout = WatermarkLayout_default\<rparr>"

text \<open>
  \<^verbatim>\<open>TextWatermarkSettings.to_dict\<close> is \<^verbatim>\<open>asdict(self)\<close>: one entry per field, in field
  order, tuples staying tuples.
\<close>

definition TextWatermarkSettings_to_dict :: "TextWatermarkSettings \<Rightarrow> pyval" where
  "TextWatermarkSettings_to_dict s =
     PDict
      [(py ''text'', PStr (wm_text s)),
       (py ''font_family'', PStr (font_family s)),
       (py ''font_size'', PInt (font_size s)),
       (py ''bold'', PBool (bold s)),
       (py ''italic'', PBool (italic s)),
       (py ''color'', (case color s of (r, g, b, a) \<Rightarrow> PTuple [PInt r, PInt g, PInt b, PInt a])),
       (py ''opacity'', PInt (text_opacity s)),
       (py ''shadow_enabled'', PBool (shadow_enabled s)),
       (py ''outline_enabled'', PBool (outline_enabled s)),
       (py ''outline_width'', PInt (outline_width s)),
       (py ''shadow_offset'', (case shadow_offset s of (dx, dy) \<Rightarrow> PTuple [PInt dx, PInt dy]))]"

definition TextWatermarkSettings_fields :: "pystr list" where
  "TextWatermarkSettings_fields =
     [py ''text'', py ''font_family'', py ''font_size'', py ''bold'', py ''italic'', py ''color'',
      py ''opacity'', py ''shadow_enabled'', py ''outline_enabled'', py ''outline_width'',
      py ''shadow_offset'']"

text \<open>
  \<open>field d key read dflt\<close>: the constructor argument \<open>key\<close> when \<open>d\<close> has it, read into
  the field's type, and the field's default otherwise.
\<close>

definition field :: "(pystr \<times> pyval) list \<Rightarrow> pystr \<Rightarrow> (pyval \<Rightarrow> py_error + 'a) \<Rightarrow> 'a \<Rightarrow> py_error + 'a" where
  "field d key read dflt = (case map_of d key of None \<Rightarrow> Inr dflt | Some v \<Rightarrow> read v)"

definition TextWatermarkSettings_from_dict :: "pyval \<Rightarrow> py_error + TextWatermarkSettings" where
  "TextWatermarkSettings_from_dict data =
     bind (kwargs TextWatermarkSettings_fields data) (\<lambda>d.
     bind (field d (py ''text'') as_str (wm_text TextWatermarkSettings_default)) (\<lambda>v1.
     bind (field d (py ''font_family'') as_str (font_family TextWatermarkSettings_default)) (\<lambda>v2.
     bind (field d (py ''font_size'') as_int (font_size TextWatermarkSettings_default)) (\<lambda>v3.
     bind (field d (py ''bold'') as_bool (bold TextWatermarkSettings_default)) (\<lambda>v4.
     bind (field d (py ''italic'') as_bool (italic TextWatermarkSettings_default)) (\<lambda>v5.
     bind (field d (py ''color'') as_color (color TextWatermarkSettings_default)) (\<lambda>v6.
     bind (field d (py ''opacity'') as_int (text_opacity TextWatermarkSettings_default)) (\<lambda>v7.
     bind (field d (py ''shadow_enabled'') as_bool (shadow_enabled TextWatermarkSettings_default)) (\<lambda>v8.
     bind (field d (py ''outline_enabled'') as_bool (outline_enabled TextWatermarkSettings_default)) (\<lambda>v9.
     bind (field d (py ''outline_width'') as_int (outline_width TextWatermarkSettings_default)) (\<lambda>v10.
     bind (field d (py ''shadow_offset'') as_int_pair (shadow_offset TextWatermarkSettings_default)) (\<lambda>v11.
     Inr \<lparr>wm_text = v1, font_family = v2, font_size = v3, bold = v4, italic = v5, color = v6,
          text_opacity = v7, shadow_enabled = v8, outline_enabled = v9, outline_width = v10,
          shadow_offset = v11\<rparr>))))))))))))"

definition ImageWatermarkSettings_to_dict :: "ImageWatermarkSettings \<Rightarrow> pyval" where
  "ImageWatermarkSettings_to_dict s =
     PDict
      [(py ''image_path'', (case image_path s of None \<Rightarrow> PNone | Some p \<Rightarrow> PStr p)),
       (py ''scale'', PFloat (scale s)),
       (py ''opacity'', PInt (image_opacity s))]"

definition ImageWatermarkSettings_fields :: "pystr list" where
  "ImageWatermarkSettings_fields = [py ''image_path'', py ''scale'', py ''opacity'']"

definition ImageWatermarkSettings_from_dict :: "pyval \<Rightarrow> py_error + ImageWatermarkSettings" where
  "ImageWatermarkSettings_from_dict data =
     bind (kwargs ImageWatermarkSettings_fields data) (\<lambda>d.
     bind (field d (py ''image_path'') as_opt_str (image_path ImageWatermarkSettings_default)) (\<lambda>v1.
     bind (field d (py ''scale'') as_float (scale ImageWatermarkSettings_default)) (\<lambda>v2.
     bind (field d (py ''opacity'') as_int (image_opacity ImageWatermarkSettings_default)) (\<lambda>v3.
     Inr \<lparr>image_path = v1, scale = v2, image_opacity = v3\<rparr>))))"

definition WatermarkLayout_to_dict :: "WatermarkLayout \<Rightarrow> pyval" where
  "WatermarkLayout_to_dict s =
     PDict
      [(py ''position'', (case position s of (x, y) \<Rightarrow> PList [PFloat x, PFloat y])),
       (py ''anchor'', PStr (WatermarkAnchor_value (anchor s)))]"

text \<open>
  \<^verbatim>\<open>WatermarkLayout.from_dict\<close>: a list is converted item by item with \<^verbatim>\<open>float\<close>
  (IndexError at the first item it does not have); any other value is stored as it is.
\<close>

definition WatermarkLayout_from_dict :: "pyval \<Rightarrow> py_error + WatermarkLayout" where
  "WatermarkLayout_from_dict data =
     bind (get_method data) (\<lambda>d.
     let position_data = dict_get d (py ''position'') (PTuple [PFloat 0.5, PFloat 0.5]) in
     bind (case position_data of
             PList xs \<Rightarrow>
               (case xs of
                  [] \<Rightarrow> Inl IndexError
                | [x0] \<Rightarrow> bind (py_float x0) (\<lambda>x. Inl IndexError)
                | x0 # x1 # _ \<Rightarrow> bind (py_float x0) (\<lambda>x. bind (py_float x1) (\<lambda>y. Inr (x, y))))
           | _ \<Rightarrow> as_float_pair position_data) (\<lambda>position.
     let anchor_value = dict_get d (py ''anchor'') (PStr (WatermarkAnchor_value CENTER)) in
     bind (WatermarkAnchor_of_value anchor_value) (\<lambda>a.
     Inr \<lparr>position = position, anchor = a\<rparr>)))"

definition WatermarkSettings_to_dict :: "WatermarkSettings \<Rightarrow> pyval" where
  "WatermarkSettings_to_dict s =
     PDict
      [(py ''watermark_type'', PStr (WatermarkType_value (watermark_type s))),
       (py ''text_settings'', TextWatermarkSettings_to_dict (text_settings s)),
       (py ''image_settings'', ImageWatermarkSettings_to_dict (image_settings s)),
       (py ''rotation'', PFloat (rotation s)),
       (py ''layout'', WatermarkLayout_to_dict (layout s))]"

definition WatermarkSettings_from_dict :: "pyval \<Rightarrow> py_error + WatermarkSettings" where
  "WatermarkSettings_from_dict data =
     bind (get_method data) (\<lambda>d.
     bind (WatermarkType_of_value
             (dict_get d (py ''watermark_type'') (PStr (WatermarkType_value TEXT)))) (\<lambda>v1.
     bind (TextWatermarkSettings_from_dict (dict_get d (py ''text_settings'') (PDict []))) (\<lambda>v2.
     bind (ImageWatermarkSettings_from_dict (dict_get d (py ''image_settings'') (PDict []))) (\<lambda>v3.
     bind (py_float (dict_get d (py ''rotation'') (PFloat 0))) (\<lambda>v4.
     bind (WatermarkLayout_from_dict (dict_get d (py ''layout'') (PDict []))) (\<lambda>v5.
     Inr \<lparr>watermark_type = v1, text_settings = v2, image_settings = v3, rotation = v4,
          layout = v5\<rparr>))))))"

section \<open>Geometry (\<^verbatim>\<open>utils.py\<close>)\<close>

text \<open>
  A Python float is modelled by the real number it denotes. Comparisons, \<^verbatim>\<open>max\<close> and
  \<^verbatim>\<open>min\<close> of floats are exact, so this module needs no rounding. The literals
  \<^verbatim>\<open>0.33\<close> and \<^verbatim>\<open>0.66\<close> are read as the fractions they write; the doubles that
  Python reads them as order the same way against every other double.
\<close>

definition clamp :: "real \<Rightarrow> real \<Rightarrow> real \<Rightarrow> real" where
  "clamp value min_value max_value = max min_value (min max_value value)"

fun anchor_to_position :: "WatermarkAnchor \<Rightarrow> real \<times> real" where
  "anchor_to_position TOP_LEFT = (0, 0)"
| "anchor_to_position TOP_CENTER = (0.5, 0)"
| "anchor_to_position TOP_RIGHT = (1, 0)"
| "anchor_to_position CENTER_LEFT = (0, 0.5)"
| "anchor_to_position CENTER = (0.5, 0.5)"
| "anchor_to_position CENTER_RIGHT = (1, 0.5)"
| "anchor_to_position BOTTOM_LEFT = (0, 1)"
| "anchor_to_position BOTTOM_CENTER = (0.5, 1)"
| "anchor_to_position BOTTOM_RIGHT = (1, 1)"

text \<open>The dictionary \<^verbatim>\<open>grid\<close> of \<^verbatim>\<open>nearest_anchor\<close>, keyed by (x_bucket, y_bucket).\<close>

definition grid :: "int \<times> int \<rightharpoonup> WatermarkAnchor" where
  "grid = map_of
     [((0, 0), TOP_LEFT),
      ((1, 0), TOP_CENTER),
      ((2, 0), TOP_RIGHT),
      ((0, 1), CENTER_LEFT),
      ((1, 1), CENTER),
      ((2, 1), CENTER_RIGHT),
      ((0, 2), BOTTOM_LEFT),
      ((1, 2), BOTTOM_CENTER),
      ((2, 2), BOTTOM_RIGHT)]"

definition bucket :: "real \<Rightarrow> int" where
  "bucket x = (if x < 0.33 then 0 else (if x \<le> 0.66 then 1 else 2))"

text \<open>
  \<^verbatim>\<open>grid[(x_bucket, y_bucket)]\<close> raises KeyError on a missing key: the result is an option,
  with None for the KeyError.
\<close>

definition nearest_anchor :: "real \<times> real \<Rightarrow> WatermarkAnchor option" where
  "nearest_anchor pos =
     (case pos of (x, y) \<Rightarrow>
        let x_bucket = bucket x; y_bucket = bucket y
        in grid (x_bucket, y_bucket))"

section \<open>Export settings (\<^verbatim>\<open>export_settings.py\<close>)\<close>

datatype ExportNamingMode = KEEP_ORIGINAL | PREFIX | SUFFIX

datatype ResizeMode = NONE | WIDTH | HEIGHT | PERCENT

fun ExportNamingMode_value :: "ExportNamingMode \<Rightarrow> pystr" where
  "ExportNamingMode_value KEEP_ORIGINAL = py ''keep''"
| "ExportNamingMode_value PREFIX = py ''prefix''"
| "ExportNamingMode_value SUFFIX = py ''suffix''"

definition ExportNamingMode_of_value :: "pyval \<Rightarrow> py_error + ExportNamingMode" where
  "ExportNamingMode_of_value v =
     (if v = PStr (py ''keep'') then Inr KEEP_ORIGINAL
      else if v = PStr (py ''prefix'') then Inr PREFIX
      else if v = PStr (py ''suffix'') then Inr SUFFIX
      else Inl ValueError)"

fun ResizeMode_value :: "ResizeMode \<Rightarrow> pystr" where
  "ResizeMode_value NONE = py ''none''"
| "ResizeMode_value WIDTH = py ''width''"
| "ResizeMode_value HEIGHT = py ''height''"
| "ResizeMode_value PERCENT = py ''percent''"

definition ResizeMode_of_value :: "pyval \<Rightarrow> py_error + ResizeMode" where
  "ResizeMode_of_value v =
     (if v = PStr (py ''none'') then Inr NONE
      else if v = PStr (py ''width'') then Inr WIDTH
      else if v = PStr (py ''height'') then Inr HEIGHT
      else if v = PStr (py ''percent'') then Inr PERCENT
      else Inl ValueError)"

record ExportSettings =
  output_format :: pystr
  output_dir :: "pystr option"
  naming_mode :: ExportNamingMode
  custom_prefix :: pystr
  custom_suffix :: pystr
  prevent_overwrite :: bool
  jpeg_quality :: int
  resize_mode :: ResizeMode
  resize_value :: "int option"

definition ExportSettings_default :: ExportSettings where
  "ExportSettings_default =
     \<lparr>output_format = py ''png'', output_dir = None, naming_mode = SUFFIX,
      custom_prefix = py ''wm_'', custom_suffix = py ''_watermarked'', prevent_overwrite = True,
      jpeg_quality = 90, resize_mode = NONE, resize_value = None\<rparr>"

definition ExportSettings_from_dict :: "pyval \<Rightarrow> py_error + ExportSettings" where
  "ExportSettings_from_dict data =
     bind (get_method data) (\<lambda>d.
     bind (as_str (dict_get d (py ''output_format'') (PStr (py ''png'')))) (\<lambda>v1.
     bind (as_opt_str (dict_get d (py ''output_dir'') PNone)) (\<lambda>v2.
     bind (ExportNamingMode_of_value
             (dict_get d (py ''naming_mode'') (PStr (ExportNamingMode_value SUFFIX)))) (\<lambda>v3.
     bind (as_str (dict_get d (py ''custom_prefix'') (PStr (py ''wm_'')))) (\<lambda>v4.
     bind (as_str (dict_get d (py ''custom_suffix'') (PStr (py ''_watermarked'')))) (\<lambda>v5.
     let v6 = py_bool (dict_get d (py ''prevent_overwrite'') (PBool True)) in
     bind (py_int (dict_get d (py ''jpeg_quality'') (PInt 90))) (\<lambda>v7.
     bind (ResizeMode_of_value
             (dict_get d (py ''resize_mode'') (PStr (ResizeMode_value NONE)))) (\<lambda>v8.
     bind (as_opt_int (dict_get d (py ''resize_value'') PNone)) (\<lambda>v9.
     Inr \<lparr>output_format = v1, output_dir = v2, naming_mode = v3, custom_prefix = v4,
          custom_suffix = v5, prevent_overwrite = v6, jpeg_quality = v7, resize_mode = v8,
          resize_value = v9\<rparr>)))))))))"

section \<open>The collaborators: Qt, pathlib, json and float arithmetic\<close>

text \<open>
  An image or pixmap is its size and its pixel bytes. The code under study never holds a
  null \<^verbatim>\<open>QPixmap\<close> in an \<^verbatim>\<open>Optional[QPixmap]\<close> (the builders and \<^verbatim>\<open>load_pixmap\<close>
  return None instead), so the truth value of such a field is whether it is not None.
\<close>

record QImage =
  img_width :: int
  img_height :: int
  img_data :: "nat list"

type_synonym QPixmap = QImage

type_synonym QPointF = "real \<times> real"

record QRectF =
  rect_left :: real
  rect_top :: real
  rect_width :: real
  rect_height :: real

record QFont =
  qfont_family :: pystr
  qfont_size :: int
  qfont_bold :: bool
  qfont_italic :: bool

datatype RenderHint = Antialiasing | TextAntialiasing

datatype QPainterPath = AddText QPointF QFont pystr

datatype QPen = NoPen | RoundJoinPen Color int

text \<open>The calls made on a \<^verbatim>\<open>QPainter\<close> between its construction and \<^verbatim>\<open>end()\<close>.\<close>

datatype painter_call =
    SetRenderHint RenderHint bool
  | SetFont QFont
  | SetOpacity real
  | Save
  | Restore
  | Translate real real
  | SetBrush Color
  | SetPen QPen
  | SetCompositionMode_DestinationIn
  | FillPath QPainterPath Color
  | StrokePath QPainterPath QPen
  | FillRect_all Color
  | DrawPixmap QPointF QPixmap

fun draws :: "painter_call \<Rightarrow> bool" where
  "draws (FillPath _ _) = True"
| "draws (StrokePath _ _) = True"
| "draws (FillRect_all _) = True"
| "draws (DrawPixmap _ _) = True"
| "draws _ = False"

text \<open>
  A path of the file system is the pair that \<^verbatim>\<open>directory / name\<close> joins: \<open>parent\<close> is the
  directory (as the string it was made from) and \<open>name\<close> the text right of the slash.
\<close>

record Path =
  parent :: pystr
  name :: pystr

definition joinpath :: "pystr \<Rightarrow> pystr \<Rightarrow> Path" where
  "joinpath directory n = \<lparr>parent = directory, name = n\<rparr>"

text \<open>
  What this repository calls and does not define. The four float operations are those of
  the machine: they round, and the result of \<^verbatim>\<open>int(h * (v / w))\<close> depends on the rounding,
  so they are parameters and not the operations of the reals (which \<open>example_env\<close>
  below takes them to be). The other fields are Qt's font metrics, painting, pixmap
  transformation and decoding, the existence of the watermark file, \<^verbatim>\<open>json.loads\<close> (None
  for a JSONDecodeError), the encoder behind \<^verbatim>\<open>QImage.save\<close> (format name and quality to
  the bytes written; None when Qt cannot write the format, and then no file is left
  behind), and pathlib: \<^verbatim>\<open>stem\<close>; \<^verbatim>\<open>samefile\<close>, which raises (FileNotFoundError) when
  one of the two directories cannot be looked up; whether \<^verbatim>\<open>Path.exists()\<close> raises on a
  path instead of answering (it passes on every error of the lookup other than a missing
  file or directory, such as a name beyond the length limit of the file system); and
  whether \<^verbatim>\<open>mkdir(parents=True, exist_ok=True)\<close> raises on a directory.
\<close>

record env =
  fadd :: "real \<Rightarrow> real \<Rightarrow> real"
  fsub :: "real \<Rightarrow> real \<Rightarrow> real"
  fmul :: "real \<Rightarrow> real \<Rightarrow> real"
  fdiv :: "real \<Rightarrow> real \<Rightarrow> real"
  tightBoundingRect :: "QFont \<Rightarrow> pystr \<Rightarrow> QRectF"
  ascent :: "QFont \<Rightarrow> real"
  descent :: "QFont \<Rightarrow> real"
  rasterize :: "QImage \<Rightarrow> painter_call list \<Rightarrow> QImage"
  transformed :: "real \<Rightarrow> QPixmap \<Rightarrow> QPixmap"
  scaledToWidth :: "int \<Rightarrow> QPixmap \<Rightarrow> QPixmap"
  scaled :: "int \<Rightarrow> int \<Rightarrow> QImage \<Rightarrow> QImage"
  watermark_file_exists :: "pystr \<Rightarrow> bool"
  QPixmap_of_file :: "pystr \<Rightarrow> QPixmap option"
  QImageReader_read :: "Path \<Rightarrow> QImage option"
  stem :: "Path \<Rightarrow> pystr"
  samefile :: "pystr \<Rightarrow> pystr \<Rightarrow> py_error + bool"
  exists_raises :: "Path \<Rightarrow> bool"
  mkdir_raises :: "pystr \<Rightarrow> bool"
  json_loads :: "pystr \<Rightarrow> pyval option"
  encode :: "QImage \<Rightarrow> pystr \<Rightarrow> int option \<Rightarrow> nat list option"

text \<open>
  A painter session on an image: the image after \<^verbatim>\<open>painter.end()\<close>. A session without a
  drawing call leaves the pixels as they were; any other is Qt's.
\<close>

definition QPainter :: "env \<Rightarrow> QImage \<Rightarrow> painter_call list \<Rightarrow> QImage" where
  "QPainter E img calls = (if list_ex draws calls then rasterize E img calls else img)"

text \<open>Float division raises ZeroDivisionError on a zero divisor.\<close>

definition truediv :: "env \<Rightarrow> real \<Rightarrow> real \<Rightarrow> py_error + real" where
  "truediv E a b = (if b = 0 then Inl ZeroDivisionError else Inr (fdiv E a b))"

section \<open>The renderer (\<^verbatim>\<open>watermark_renderer.py\<close>)\<close>

definition TEXT_MARGIN :: int where
  "TEXT_MARGIN = 16"

text \<open>
  \<^verbatim>\<open>WatermarkRenderResult\<close>; \<open>result_size\<close> is its field \<^verbatim>\<open>size\<close>, and
  \<^verbatim>\<open>QSize()\<close> is the invalid size (-1, -1).
\<close>

record WatermarkRenderResult =
  pixmap :: "QPixmap option"
  result_size :: "int \<times> int"

text \<open>
  \<^verbatim>\<open>str.strip()\<close> removes the leading and trailing code points that are whitespace for
  Python: the ASCII ones (tab to carriage return, the separators 28 to 31, the space) and
  the Unicode ones (NEL, NBSP, Ogham space, the spaces U+2000 to U+200A, line and paragraph
  separator, narrow NBSP, medium mathematical space, ideographic space).
\<close>

definition isspace :: "nat \<Rightarrow> bool" where
  "isspace c =
     ((9 \<le> c \<and> c \<le> 13) \<or> (28 \<le> c \<and> c \<le> 32) \<or> c = 133 \<or> c = 160 \<or> c = 5760
      \<or> (8192 \<le> c \<and> c \<le> 8202) \<or> c = 8232 \<or> c = 8233 \<or> c = 8239 \<or> c = 8287
      \<or> c = 12288)"

definition strip :: "pystr \<Rightarrow> pystr" where
  "strip s = rev (dropWhile isspace (rev (dropWhile isspace s)))"

text \<open>\<^verbatim>\<open>QImage(width, height, Format_ARGB32_Premultiplied)\<close> filled with \<^verbatim>\<open>Qt.transparent\<close>.\<close>

definition transparent_image :: "int \<Rightarrow> int \<Rightarrow> QImage" where
  "transparent_image w h =
     \<lparr>img_width = w, img_height = h, img_data = replicate (nat (4 * w * h)) 0\<rparr>"

definition build_text_watermark ::
  "env \<Rightarrow> int \<times> int \<Rightarrow> TextWatermarkSettings \<Rightarrow> real \<Rightarrow> QPixmap option" where
  "build_text_watermark E base_size settings rot =
     (if strip (wm_text settings) = [] then None
      else
        let font = \<lparr>qfont_family = font_family settings, qfont_size = font_size settings,
                    qfont_bold = bold settings, qfont_italic = italic settings\<rparr>;
            text_rect = tightBoundingRect E font (wm_text settings);
            width = max (\<lceil>rect_width text_rect\<rceil> + TEXT_MARGIN * 2) 10;
            height = max (\<lceil>fadd E (ascent E font) (descent E font)\<rceil> + TEXT_MARGIN * 2) 10;
            img = transparent_image width height;
            baseline = fadd E (of_int TEXT_MARGIN) (ascent E font);
            start_point = (fsub E (of_int TEXT_MARGIN) (rect_left text_rect), baseline);
            path = AddText start_point font (wm_text settings);
            painted = QPainter E img
              ([SetRenderHint Antialiasing True,
                SetRenderHint TextAntialiasing True,
                SetFont font,
                SetOpacity (fdiv E (of_int (text_opacity settings)) 100)]
               @ (if shadow_enabled settings
                  then [Save,
                        Translate (of_int (fst (shadow_offset settings)))
                                  (of_int (snd (shadow_offset settings))),
                        FillPath path (0, 0, 0, trunc (fmul E 255 0.4)),
                        Restore]
                  else [])
               @ [SetBrush (color settings), SetPen NoPen, FillPath path (color settings)]
               @ (if outline_enabled settings
                  then [StrokePath path
                          (RoundJoinPen (0, 0, 0, snd (snd (snd (color settings))))
                             (max 1 (outline_width settings)))]
                  else []))
        in Some (if rot \<noteq> 0 then transformed E rot painted else painted))"

definition build_image_watermark ::
  "env \<Rightarrow> int \<times> int \<Rightarrow> ImageWatermarkSettings \<Rightarrow> real \<Rightarrow> QPixmap option" where
  "build_image_watermark E base_size settings rot =
     (case image_path settings of
        None \<Rightarrow> None
      | Some p \<Rightarrow>
          if p = [] then None
          else if \<not> watermark_file_exists E p then None
          else
            (case QPixmap_of_file E p of
               None \<Rightarrow> None
             | Some pm \<Rightarrow>
                 let target_width = max 1 (trunc (fmul E (of_int (fst base_size)) (scale settings)));
                     scaled0 = scaledToWidth E target_width pm;
                     scaled1 = (if rot \<noteq> 0 then transformed E rot scaled0 else scaled0);
                     scaled2 =
                       (if image_opacity settings < 100
                        then QPainter E scaled1
                               [SetCompositionMode_DestinationIn,
                                FillRect_all
                                  (0, 0, 0,
                                   trunc (fmul E 255
                                            (fdiv E (of_int (image_opacity settings)) 100)))]
                        else scaled1)
                 in Some scaled2))"

definition build_watermark :: "env \<Rightarrow> int \<times> int \<Rightarrow> WatermarkSettings \<Rightarrow> WatermarkRenderResult" where
  "build_watermark E base_size settings =
     (let pm = (if watermark_type settings = TEXT
                then build_text_watermark E base_size (text_settings settings) (rotation settings)
                else build_image_watermark E base_size (image_settings settings) (rotation settings))
      in case pm of
           None \<Rightarrow> \<lparr>pixmap = None, result_size = (-1, -1)\<rparr>
         | Some p \<Rightarrow> \<lparr>pixmap = Some p, result_size = (img_width p, img_height p)\<rparr>)"

text \<open>
  \<^verbatim>\<open>apply_watermark\<close> works on \<^verbatim>\<open>result = QImage(base_image)\<close>, a copy: Qt shares the pixel
  data until the first write and then detaches it, so the painter on \<open>result\<close> writes to
  \<open>result\<close> alone. The model returns both objects as they are when the call returns: the
  caller's \<^verbatim>\<open>base_image\<close> first, the returned image second.
\<close>

definition apply_watermark ::
  "env \<Rightarrow> QImage \<Rightarrow> WatermarkSettings \<Rightarrow> QPointF \<Rightarrow> QPointF \<Rightarrow> QImage \<times> QImage" where
  "apply_watermark E base_image settings pos anchor_ratio =
     (let result = base_image;
          render_result = build_watermark E (img_width base_image, img_height base_image) settings
      in case pixmap render_result of
           None \<Rightarrow> (base_image, QPainter E result [SetRenderHint Antialiasing True])
         | Some watermark \<Rightarrow>
             let offset_x = fmul E (of_int (img_width watermark)) (fst anchor_ratio);
                 offset_y = fmul E (of_int (img_height watermark)) (snd anchor_ratio);
                 draw_point = (fsub E (fst pos) offset_x, fsub E (snd pos) offset_y)
             in (base_image,
                 QPainter E result
                   [SetRenderHint Antialiasing True, DrawPixmap draw_point watermark]))"

section \<open>The preview widget (\<^verbatim>\<open>widgets/preview_widget.py\<close>)\<close>

text \<open>The fields of \<^verbatim>\<open>PreviewWidget\<close> that the drag handling reads.\<close>

record PreviewWidget =
  base_pixmap :: "QPixmap option"
  watermark_pixmap :: "QPixmap option"
  widget_layout :: WatermarkLayout
  scale_factor :: real
  draw_rect :: QRectF
  dragging :: bool
  drag_delta :: QPointF

datatype signal = positionChanged real real | anchorChanged WatermarkAnchor

text \<open>
  What a mouse handler did with the event: emitted signals and accepted it, returned
  without accepting it, or passed it to the base class.
\<close>

datatype handled = Accepted "signal list" | Returned | Super

definition watermark_rect_base :: "env \<Rightarrow> PreviewWidget \<Rightarrow> QRectF option" where
  "watermark_rect_base E w =
     (case (base_pixmap w, watermark_pixmap w) of
        (Some base, Some wm) \<Rightarrow>
          let anchor_ratio = anchor_to_position (anchor (widget_layout w));
              base_width = img_width base;
              base_height = img_height base;
              pos_x = fmul E (fst (position (widget_layout w))) (of_int base_width);
              pos_y = fmul E (snd (position (widget_layout w))) (of_int base_height);
              wm_width = img_width wm;
              wm_height = img_height wm;
              top_left_x = fsub E pos_x (fmul E (fst anchor_ratio) (of_int wm_width));
              top_left_y = fsub E pos_y (fmul E (snd anchor_ratio) (of_int wm_height))
          in Some \<lparr>rect_left = top_left_x, rect_top = top_left_y,
                    rect_width = of_int wm_width, rect_height = of_int wm_height\<rparr>
      | _ \<Rightarrow> None)"

definition widget_to_base :: "env \<Rightarrow> PreviewWidget \<Rightarrow> QPointF \<Rightarrow> py_error + QPointF" where
  "widget_to_base E w point =
     (let relative = (fsub E (fst point) (rect_left (draw_rect w)),
                      fsub E (snd point) (rect_top (draw_rect w)))
      in bind (truediv E (fst relative) (scale_factor w)) (\<lambda>base_x.
         bind (truediv E (snd relative) (scale_factor w)) (\<lambda>base_y.
         Inr (base_x, base_y))))"

definition mouseMoveEvent :: "env \<Rightarrow> PreviewWidget \<Rightarrow> QPointF \<Rightarrow> py_error + handled" where
  "mouseMoveEvent E w event_position =
     (case (dragging w, base_pixmap w, watermark_pixmap w) of
        (True, Some base, Some wm) \<Rightarrow>
          (case watermark_rect_base E w of
             None \<Rightarrow> Inr Returned
           | Some base_rect \<Rightarrow>
               bind (widget_to_base E w event_position) (\<lambda>pointer_base.
               let new_center_x = fsub E (fst pointer_base) (fst (drag_delta w));
                   new_center_y = fsub E (snd pointer_base) (snd (drag_delta w));
                   half_w = fdiv E (rect_width base_rect) 2;
                   half_h = fdiv E (rect_height base_rect) 2;
                   base_width = of_int (img_width base);
                   base_height = of_int (img_height base);
                   new_center_x = clamp new_center_x half_w (fsub E base_width half_w);
                   new_center_y = clamp new_center_y half_h (fsub E base_height half_h)
               in bind (truediv E new_center_x base_width) (\<lambda>normalized_x.
                  bind (truediv E new_center_y base_height) (\<lambda>normalized_y.
                  Inr (Accepted [positionChanged normalized_x normalized_y,
                                 anchorChanged CENTER])))))
      | _ \<Rightarrow> Inr Super)"

section \<open>Export (\<^verbatim>\<open>main_window.py\<close>)\<close>

text \<open>
  The file system, as far as the code looks at it: which paths exist, and what the files
  hold (the text of a template file, the bytes of an exported image). Directories are not
  part of it, so \<^verbatim>\<open>mkdir\<close> leaves it as it is. Reading, writing and removing a file
  that exists are taken to succeed.
\<close>

type_synonym filesystem = "Path \<rightharpoonup> nat list"

text \<open>\<^verbatim>\<open>Path.exists()\<close>: an answer, or the OSError of the lookup.\<close>

definition path_exists :: "env \<Rightarrow> filesystem \<Rightarrow> Path \<Rightarrow> py_error + bool" where
  "path_exists E fs p = (if exists_raises E p then Inl OSError else Inr (fs p \<noteq> None))"

record ImageItem =
  path :: Path

text \<open>\<^verbatim>\<open>str(counter)\<close>: the decimal digits of an integer.\<close>

fun digits :: "nat \<Rightarrow> pystr" where
  "digits n = (if n < 10 then [48 + n] else digits (n div 10) @ [48 + n mod 10])"

declare digits.simps [simp del]

definition str_int :: "int \<Rightarrow> pystr" where
  "str_int i = (if i < 0 then 45 # digits (nat (- i)) else digits (nat i))"

text \<open>
  \<^verbatim>\<open>str.lower()\<close> and \<^verbatim>\<open>str.upper()\<close> on the ASCII letters. Python also maps code points
  outside ASCII, but none of them to one of the letters of \<^verbatim>\<open>png\<close>, \<^verbatim>\<open>JPG\<close> or
  \<^verbatim>\<open>JPEG\<close> alone, so the comparisons below come out as in Python.
\<close>

definition lower :: "pystr \<Rightarrow> pystr" where
  "lower s = map (\<lambda>c. if 65 \<le> c \<and> c \<le> 90 then c + 32 else c) s"

definition upper :: "pystr \<Rightarrow> pystr" where
  "upper s = map (\<lambda>c. if 97 \<le> c \<and> c \<le> 122 then c - 32 else c) s"

text \<open>
  \<^verbatim>\<open>_resize_image\<close>. \<^verbatim>\<open>value = resize_value or 0\<close>; the quotients are Python's true
  division (of integers, or by \<^verbatim>\<open>100.0\<close>) and the products are float products; \<^verbatim>\<open>int\<close>
  truncates. The image is then scaled by Qt to the requested size, keeping its aspect ratio.
\<close>

definition resize_image :: "env \<Rightarrow> ExportSettings \<Rightarrow> QImage \<Rightarrow> py_error + QImage" where
  "resize_image E es img =
     (let mode = resize_mode es;
          val = (case resize_value es of None \<Rightarrow> 0 | Some v \<Rightarrow> v)
      in if mode = NONE \<or> val \<le> 0 then Inr img
         else
           let width = img_width img;
               height = img_height img
           in if mode = WIDTH then
                (let new_width = val in
                 bind (truediv E (of_int new_width) (of_int width)) (\<lambda>q.
                 let new_height = trunc (fmul E (of_int height) q)
                 in Inr (scaled E (max 1 new_width) (max 1 new_height) img)))
              else if mode = HEIGHT then
                (let new_height = val in
                 bind (truediv E (of_int new_height) (of_int height)) (\<lambda>q.
                 let new_width = trunc (fmul E (of_int width) q)
                 in Inr (scaled E (max 1 new_width) (max 1 new_height) img)))
              else if mode = PERCENT then
                (let sc = fdiv E (of_int val) 100;
                     new_width = trunc (fmul E (of_int width) sc);
                     new_height = trunc (fmul E (of_int height) sc)
                 in Inr (scaled E (max 1 new_width) (max 1 new_height) img))
              else Inr img)"

text \<open>
  The \<^verbatim>\<open>while target.exists()\<close> loop of \<^verbatim>\<open>_determine_output_path\<close>. It has no bound: the
  result is an option, and None stands for a loop that never ends. The loop ends with the
  exception of \<^verbatim>\<open>exists()\<close> when that raises.
\<close>

partial_function (option) determine_output_path_loop ::
  "env \<Rightarrow> filesystem \<Rightarrow> pystr \<Rightarrow> pystr \<Rightarrow> pystr \<Rightarrow> Path \<Rightarrow> int
     \<Rightarrow> (py_error + Path) option" where
  "determine_output_path_loop E fs output_directory st extension target counter =
     (case path_exists E fs target of
        Inl e \<Rightarrow> Some (Inl e)
      | Inr present \<Rightarrow>
          if present
          then determine_output_path_loop E fs output_directory st extension
                 (joinpath output_directory (st @ py ''_'' @ str_int counter @ extension))
                 (counter + 1)
          else Some (Inr target))"

declare determine_output_path_loop.simps [code]

definition determine_output_path ::
  "env \<Rightarrow> ExportSettings \<Rightarrow> filesystem \<Rightarrow> Path \<Rightarrow> pystr \<Rightarrow> (py_error + Path) option" where
  "determine_output_path E es fs source output_directory =
     (let st = stem E source;
          st = (if naming_mode es = PREFIX then custom_prefix es @ st
                else if naming_mode es = SUFFIX then st @ custom_suffix es
                else st);
          extension = (if lower (output_format es) = py ''png'' then py ''.png'' else py ''.jpg'');
          target = joinpath output_directory (st @ extension)
      in determine_output_path_loop E fs output_directory st extension target 1)"

definition load_pixmap :: "env \<Rightarrow> Path \<Rightarrow> QPixmap option" where
  "load_pixmap E p = QImageReader_read E p"

text \<open>
  \<^verbatim>\<open>result_image.save(str(result_path), format_name[, quality])\<close>: the file is written when
  Qt can encode the format; the code does not look at the result of \<^verbatim>\<open>save\<close>.
\<close>

definition save :: "env \<Rightarrow> filesystem \<Rightarrow> QImage \<Rightarrow> Path \<Rightarrow> pystr \<Rightarrow> int option \<Rightarrow> filesystem" where
  "save E fs img p format_name quality =
     (case encode E img format_name quality of None \<Rightarrow> fs | Some bytes \<Rightarrow> fs(p \<mapsto> bytes))"

text \<open>
  The two warnings of \<^verbatim>\<open>_export_images\<close> (no output directory chosen; the output directory
  is the directory of a source image), and how the call ends: with a warning and an early
  return, with an exception, or with the count shown in the status bar.
\<close>

datatype warning = MissingOutputDir | InvalidOutputDir

datatype outcome = Warned warning | Raised py_error | Completed nat

text \<open>
  The second loop of \<^verbatim>\<open>_export_images\<close>, from the item list, the file system and
  \<^verbatim>\<open>success_count\<close> so far, to the file system and the outcome (None when the naming loop of
  an item never ends). An exception ends the loop; the files written before it stay.
\<close>

fun export_loop ::
  "env \<Rightarrow> ExportSettings \<Rightarrow> WatermarkSettings \<Rightarrow> pystr \<Rightarrow> ImageItem list \<Rightarrow> filesystem \<Rightarrow> nat
     \<Rightarrow> (filesystem \<times> outcome) option" where
  "export_loop E es ws output_directory [] fs success_count = Some (fs, Completed success_count)"
| "export_loop E es ws output_directory (item # items) fs success_count =
     (case determine_output_path E es fs (path item) output_directory of
        None \<Rightarrow> None
      | Some (Inl e) \<Rightarrow> Some (fs, Raised e)
      | Some (Inr result_path) \<Rightarrow>
          (case load_pixmap E (path item) of
             None \<Rightarrow> export_loop E es ws output_directory items fs success_count
           | Some base_image \<Rightarrow>
               (case resize_image E es base_image of
                  Inl e \<Rightarrow> Some (fs, Raised e)
                | Inr img \<Rightarrow>
                    let lay = layout ws;
                        pos = (fmul E (fst (position lay)) (of_int (img_width img)),
                               fmul E (snd (position lay)) (of_int (img_height img)));
                        anch = anchor_to_position (anchor lay);
                        result_image = snd (apply_watermark E img ws pos anch);
                        format_name = upper (output_format es);
                        fs' = (if format_name = py ''JPG'' \<or> format_name = py ''JPEG''
                               then let quality = max 0 (min 100 (jpeg_quality es))
                                    in save E fs result_image result_path format_name (Some quality)
                               else save E fs result_image result_path format_name None)
                    in export_loop E es ws output_directory items fs' (success_count + 1))))"

text \<open>
  The first loop of \<^verbatim>\<open>_export_images\<close>, item by item in list order: True at the first
  item whose parent directory is the output directory, the exception of \<^verbatim>\<open>samefile\<close> at
  the first item on which it raises, False when the list is through.
\<close>

fun output_dir_is_source_dir :: "env \<Rightarrow> pystr \<Rightarrow> ImageItem list \<Rightarrow> py_error + bool" where
  "output_dir_is_source_dir E output_directory [] = Inr False"
| "output_dir_is_source_dir E output_directory (item # items) =
     (case samefile E output_directory (parent (path item)) of
        Inl e \<Rightarrow> Inl e
      | Inr same \<Rightarrow>
          if same then Inr True else output_dir_is_source_dir E output_directory items)"

definition export_images ::
  "env \<Rightarrow> ExportSettings \<Rightarrow> WatermarkSettings \<Rightarrow> filesystem \<Rightarrow> ImageItem list
     \<Rightarrow> (filesystem \<times> outcome) option" where
  "export_images E es ws fs items =
     (case output_dir es of
        None \<Rightarrow> Some (fs, Warned MissingOutputDir)
      | Some d \<Rightarrow>
          if d = [] then Some (fs, Warned MissingOutputDir)
          else if mkdir_raises E d then Some (fs, Raised OSError)
          else
            (case (if prevent_overwrite es then output_dir_is_source_dir E d items
                   else Inr False) of
               Inl e \<Rightarrow> Some (fs, Raised e)
             | Inr same \<Rightarrow>
                 if same then Some (fs, Warned InvalidOutputDir)
                 else export_loop E es ws d items fs 0))"

section \<open>Templates (\<^verbatim>\<open>template_manager.py\<close>)\<close>

record TemplateManager =
  templates_dir :: pystr

definition TEMPLATE_SUFFIX :: pystr where
  "TEMPLATE_SUFFIX = py ''.json''"

text \<open>
  \<^verbatim>\<open>INVALID_CHARS_RE = re.compile(r"[^A-Za-z0-9_-]+")\<close>: \<open>template_char\<close> is a code point
  outside the class, and \<open>sub_invalid\<close> is \<^verbatim>\<open>INVALID_CHARS_RE.sub("_", s)\<close>, one underscore
  for each maximal run of code points of the class (the flag says that the run has begun).
\<close>

definition template_char :: "nat \<Rightarrow> bool" where
  "template_char c =
     ((65 \<le> c \<and> c \<le> 90) \<or> (97 \<le> c \<and> c \<le> 122) \<or> (48 \<le> c \<and> c \<le> 57) \<or> c = 95 \<or> c = 45)"

fun sub_invalid :: "bool \<Rightarrow> pystr \<Rightarrow> pystr" where
  "sub_invalid in_run [] = []"
| "sub_invalid in_run (c # cs) =
     (if template_char c then c # sub_invalid False cs
      else if in_run then sub_invalid True cs
      else 95 # sub_invalid True cs)"

definition sanitize_name :: "pystr \<Rightarrow> py_error + pystr" where
  "sanitize_name n =
     (let cleaned = strip n
      in if cleaned = [] then Inl ValueError else Inr (sub_invalid False cleaned))"

definition template_path :: "TemplateManager \<Rightarrow> pystr \<Rightarrow> py_error + Path" where
  "template_path tm n =
     bind (sanitize_name n) (\<lambda>sanitized.
     Inr (joinpath (templates_dir tm) (sanitized @ TEMPLATE_SUFFIX)))"

text \<open>
  \<^verbatim>\<open>load_template\<close>: after \<^verbatim>\<open>exists()\<close> has answered True, \<^verbatim>\<open>read_text\<close> reads the file
  (it would raise FileNotFoundError on a file that is not there).
\<close>

definition load_template ::
  "env \<Rightarrow> filesystem \<Rightarrow> TemplateManager \<Rightarrow> pystr
     \<Rightarrow> py_error + WatermarkSettings \<times> ExportSettings" where
  "load_template E fs tm n =
     bind (template_path tm n) (\<lambda>p.
     bind (path_exists E fs p) (\<lambda>present.
     if \<not> present then Inl FileNotFoundError
     else
       (case fs p of
          None \<Rightarrow> Inl FileNotFoundError
        | Some content \<Rightarrow>
            (case json_loads E content of
               None \<Rightarrow> Inl JSONDecodeError
             | Some raw \<Rightarrow>
                 bind (get_method raw) (\<lambda>d.
                 let watermark_state = dict_get d (py ''watermark'') (PDict []);
                     export_state = dict_get d (py ''export'') (PDict [])
                 in bind (WatermarkSettings_from_dict watermark_state) (\<lambda>w.
                    bind (ExportSettings_from_dict export_state) (\<lambda>e.
                    Inr (w, e))))))))"

definition delete_template ::
  "env \<Rightarrow> filesystem \<Rightarrow> TemplateManager \<Rightarrow> pystr \<Rightarrow> py_error + filesystem" where
  "delete_template E fs tm n =
     bind (template_path tm n) (\<lambda>p.
     bind (path_exists E fs p) (\<lambda>present.
     Inr (if present then fs(p := None) else fs)))"

text \<open>
  \<open>found r\<close>: the result \<open>r\<close> is not the FileNotFoundError, the not-found condition
  that the caller of \<^verbatim>\<open>load_template\<close> catches.
\<close>

definition found :: "py_error + 'a \<Rightarrow> bool" where
  "found r = (r \<noteq> Inl FileNotFoundError)"

section \<open>A concrete environment\<close>

text \<open>The number of bytes of a string in UTF-8.\<close>

definition utf8_length :: "pystr \<Rightarrow> nat" where
  "utf8_length s =
     sum_list (map (\<lambda>c. if c < 128 then 1 else if c < 2048 then 2 else if c < 65536 then 3 else 4) s)"

text \<open>
  An environment to run the definitions in. Its float operations are those of the reals;
  the numbers of the examples below are small dyadic fractions, on which the machine
  operations are exact as well. Its font engine gives every text the same metrics, its
  painter appends a mark to the pixel bytes, its scalers set the requested size, and the
  only watermark file there is is \<^verbatim>\<open>logo.png\<close>. Its file system is that of Linux:
  \<^verbatim>\<open>exists()\<close> raises on a file name of more than 255 bytes in UTF-8. The directory
  \<^verbatim>\<open>gone\<close> has been removed, so \<^verbatim>\<open>samefile\<close> raises on it; any other two directories
  are the same location when they are the same string.
\<close>

definition example_env :: env where
  "example_env =
     \<lparr>fadd = (+), fsub = (-), fmul = (*), fdiv = (/),
      tightBoundingRect = (\<lambda>f t. \<lparr>rect_left = 1, rect_top = 0, rect_width = 40, rect_height = 10\<rparr>),
      ascent = (\<lambda>f. 8),
      descent = (\<lambda>f. 2),
      rasterize = (\<lambda>img calls. img\<lparr>img_data := img_data img @ [length calls]\<rparr>),
      transformed = (\<lambda>r pm. pm),
      scaledToWidth = (\<lambda>w pm. pm\<lparr>img_width := w\<rparr>),
      scaled = (\<lambda>w h img. img\<lparr>img_width := w, img_height := h\<rparr>),
      watermark_file_exists = (\<lambda>p. p = py ''logo.png''),
      QPixmap_of_file = (\<lambda>p. Some \<lparr>img_width = 4, img_height = 2, img_data = [7]\<rparr>),
      QImageReader_read = (\<lambda>p. Some \<lparr>img_width = 8, img_height = 4, img_data = [1, 2, 3]\<rparr>),
      stem = (\<lambda>p. takeWhile (\<lambda>c. c \<noteq> 46) (name p)),
      samefile = (\<lambda>a b. if a = py ''gone'' \<or> b = py ''gone'' then Inl FileNotFoundError
                       else Inr (a = b)),
      exists_raises = (\<lambda>p. 255 < utf8_length (name p)),
      mkdir_raises = (\<lambda>directory. False),
      json_loads = (\<lambda>t. Some (PDict [])),
      encode = (\<lambda>img f q. Some (img_data img))\<rparr>"

definition example_image :: "int \<Rightarrow> int \<Rightarrow> QImage" where
  "example_image w h = \<lparr>img_width = w, img_height = h, img_data = [1, 2, 3]\<rparr>"

text \<open>An image watermark: \<^verbatim>\<open>logo.png\<close> at a quarter of the base width and 70 percent opacity.\<close>

definition example_settings :: WatermarkSettings where
  "example_settings =
     WatermarkSettings_default
       \<lparr>watermark_type := IMAGE,
        image_settings :=
          \<lparr>image_path = Some (py ''logo.png''), scale = 0.25, image_opacity = 70\<rparr>\<rparr>"

text \<open>
  An output directory that already holds \<^verbatim>\<open>a_watermarked.png\<close> and
  \<^verbatim>\<open>a_watermarked_1.png\<close>, and a template directory.
\<close>

definition example_fs :: filesystem where
  "example_fs =
     [joinpath (py ''out'') (py ''a_watermarked.png'') \<mapsto> [1],
      joinpath (py ''out'') (py ''a_watermarked_1.png'') \<mapsto> [2]]"

text \<open>A stem of 250 letters \<^verbatim>\<open>a\<close>, and a template name of 251.\<close>

definition example_long_stem :: pystr where
  "example_long_stem = replicate 250 97"

definition example_long_name :: pystr where
  "example_long_name = replicate 251 97"

definition example_manager :: TemplateManager where
  "example_manager = \<lparr>templates_dir = py ''templates''\<rparr>"

text \<open>A widget in mid-drag over a 100 by 100 image, unscaled, with an overlay of the given width.\<close>

definition example_widget :: "int \<Rightarrow> PreviewWidget" where
  "example_widget overlay_width =
     \<lparr>base_pixmap = Some (example_image 100 100),
      watermark_pixmap = Some (example_image overlay_width 20),
      widget_layout = WatermarkLayout_default,
      scale_factor = 1,
      draw_rect = \<lparr>rect_left = 0, rect_top = 0, rect_width = 100, rect_height = 100\<rparr>,
      dragging = True,
      drag_delta = (0, 0)\<rparr>"

section \<open>Properties\<close>

subsection \<open>The concrete environment, field by field\<close>

lemma example_env_fields:
  "fadd example_env = (+)" "fsub example_env = (-)" "fmul example_env = (*)"
  "fdiv example_env = (/)"
  "rasterize example_env img calls = img\<lparr>img_data := img_data img @ [length calls]\<rparr>"
  "transformed example_env r pm = pm"
  "scaledToWidth example_env w pm = pm\<lparr>img_width := w\<rparr>"
  "scaled example_env w h img = img\<lparr>img_width := w, img_height := h\<rparr>"
  "watermark_file_exists example_env p = (p = py ''logo.png'')"
  "QPixmap_of_file example_env p = Some \<lparr>img_width = 4, img_height = 2, img_data = [7]\<rparr>"
  "QImageReader_read example_env q = Some \<lparr>img_width = 8, img_height = 4, img_data = [1, 2, 3]\<rparr>"
  "stem example_env q = takeWhile (\<lambda>c. c \<noteq> 46) (name q)"
  "samefile example_env a b
     = (if a = py ''gone'' \<or> b = py ''gone'' then Inl FileNotFoundError else Inr (a = b))"
  "exists_raises example_env q = (255 < utf8_length (name q))"
  "mkdir_raises example_env a = False"
  "json_loads example_env t = Some (PDict [])"
  "encode example_env img f qual = Some (img_data img)"
  by (simp_all add: example_env_def)

subsection \<open>Anchors and placement\<close>

text \<open>
  C10. For each of the nine anchors, the canonical ratio point of the anchor is classified
  back to the same anchor by the three-band bucketing of \<^verbatim>\<open>nearest_anchor\<close>.
\<close>

theorem nearest_anchor_of_anchor_position:
  "nearest_anchor (anchor_to_position a) = Some a"
  by (cases a) (simp_all add: nearest_anchor_def bucket_def grid_def)

text \<open>
  C1. \<^verbatim>\<open>anchor_to_position\<close> is the ratio table of the nine anchors, and whenever
  \<^verbatim>\<open>build_watermark\<close> yields an overlay, \<^verbatim>\<open>apply_watermark\<close> leaves the base image alone
  and returns the base image with the overlay drawn once, its top-left corner at the anchor
  point minus (ratio.x * overlay width, ratio.y * overlay height).
\<close>

theorem anchor_ratio_table_and_overlay_placement:
  "anchor_to_position TOP_LEFT = (0, 0) \<and> anchor_to_position TOP_CENTER = (0.5, 0)
   \<and> anchor_to_position TOP_RIGHT = (1, 0) \<and> anchor_to_position CENTER_LEFT = (0, 0.5)
   \<and> anchor_to_position CENTER = (0.5, 0.5) \<and> anchor_to_position CENTER_RIGHT = (1, 0.5)
   \<and> anchor_to_position BOTTOM_LEFT = (0, 1) \<and> anchor_to_position BOTTOM_CENTER = (0.5, 1)
   \<and> anchor_to_position BOTTOM_RIGHT = (1, 1)
   \<and> (pixmap (build_watermark E (img_width base, img_height base) settings) = Some overlay \<longrightarrow>
        apply_watermark E base settings (x, y) (rx, ry) =
          (base,
           rasterize E base
             [SetRenderHint Antialiasing True,
              DrawPixmap (fsub E x (fmul E (of_int (img_width overlay)) rx),
                          fsub E y (fmul E (of_int (img_height overlay)) ry)) overlay]))"
  by (simp add: apply_watermark_def QPainter_def)

lemma example_overlay:
  "pixmap (build_watermark example_env (8, 4) example_settings)
     = Some \<lparr>img_width = 2, img_height = 2, img_data = [7, 2]\<rparr>"
  by (simp add: build_watermark_def build_image_watermark_def example_settings_def
      example_env_fields WatermarkSettings_default_def QPainter_def trunc_def)

theorem anchor_ratio_table_and_overlay_placement_witness:
  "pixmap (build_watermark example_env (8, 4) example_settings)
     = Some \<lparr>img_width = 2, img_height = 2, img_data = [7, 2]\<rparr>
   \<and> apply_watermark example_env (example_image 8 4) example_settings (4, 2) (1, 0.5)
     = (example_image 8 4,
        rasterize example_env (example_image 8 4)
          [SetRenderHint Antialiasing True,
           DrawPixmap (2, 1) \<lparr>img_width = 2, img_height = 2, img_data = [7, 2]\<rparr>])"
proof -
  have overlay: "pixmap (build_watermark example_env
      (img_width (example_image 8 4), img_height (example_image 8 4)) example_settings)
     = Some \<lparr>img_width = 2, img_height = 2, img_data = [7, 2]\<rparr>"
    using example_overlay by (simp add: example_image_def)
  show ?thesis
    using overlay example_overlay
      anchor_ratio_table_and_overlay_placement [of example_env "example_image 8 4"
        example_settings "\<lparr>img_width = 2, img_height = 2, img_data = [7, 2]\<rparr>" 4 2 1 "0.5"]
    by (simp add: example_env_fields(1-4))
qed

subsection \<open>Resizing for export\<close>






subsection \<open>Dragging the overlay\<close>

lemma clamp_between: "lo \<le> hi \<Longrightarrow> lo \<le> clamp v lo hi \<and> clamp v lo hi \<le> hi"
  by (simp add: clamp_def)

lemma clamp_inverted: "hi < lo \<Longrightarrow> clamp v lo hi = lo"
  by (simp add: clamp_def)

lemma clamp_above: "lo \<le> hi \<Longrightarrow> hi \<le> v \<Longrightarrow> clamp v lo hi = hi"
  by (simp add: clamp_def)

text \<open>
  C3, as the code has it. While dragging over a base image of positive size (and with a
  non-zero scale factor), a pointer move emits the clamped centre divided by the base
  dimensions, with the anchor CENTER. With half = overlay size / 2: when
  half \<le> base - half, the clamped centre lies between half and base - half; when
  base - half < half (the overlay is larger than the base), the centre is half, the lower
  bound of the clamp, and not the midpoint of the base. With exact arithmetic, a pointer
  at or beyond base width - half width gives the normalised x
  1 - (overlay width / 2) / base width.
\<close>

theorem drag_clamps_center:
  fixes E :: env and w :: PreviewWidget and base wm :: QImage and p :: QPointF
  defines "bw \<equiv> of_int (img_width base)"
    and "bh \<equiv> of_int (img_height base)"
    and "half_w \<equiv> fdiv E (of_int (img_width wm)) 2"
    and "half_h \<equiv> fdiv E (of_int (img_height wm)) 2"
    and "want_x \<equiv> fsub E (fdiv E (fsub E (fst p) (rect_left (draw_rect w))) (scale_factor w))
                      (fst (drag_delta w))"
    and "want_y \<equiv> fsub E (fdiv E (fsub E (snd p) (rect_top (draw_rect w))) (scale_factor w))
                      (snd (drag_delta w))"
  defines "cx \<equiv> clamp want_x half_w (fsub E bw half_w)"
    and "cy \<equiv> clamp want_y half_h (fsub E bh half_h)"
  assumes "dragging w" "base_pixmap w = Some base" "watermark_pixmap w = Some wm"
    "scale_factor w \<noteq> 0" "0 < img_width base" "0 < img_height base"
  shows "mouseMoveEvent E w p =
           Inr (Accepted [positionChanged (fdiv E cx bw) (fdiv E cy bh), anchorChanged CENTER])
    \<and> (half_w \<le> fsub E bw half_w \<longrightarrow> half_w \<le> cx \<and> cx \<le> fsub E bw half_w)
    \<and> (half_h \<le> fsub E bh half_h \<longrightarrow> half_h \<le> cy \<and> cy \<le> fsub E bh half_h)
    \<and> (fsub E bw half_w < half_w \<longrightarrow> cx = half_w)
    \<and> (fsub E bh half_h < half_h \<longrightarrow> cy = half_h)
    \<and> (fsub E = (-) \<and> fdiv E = (/) \<and> half_w \<le> bw - half_w \<and> bw - half_w \<le> want_x \<longrightarrow>
          fdiv E cx bw = 1 - (of_int (img_width wm) / 2) / bw)"
proof -
  have emitted: "mouseMoveEvent E w p =
      Inr (Accepted [positionChanged (fdiv E cx bw) (fdiv E cy bh), anchorChanged CENTER])"
    using assms
    by (simp add: mouseMoveEvent_def watermark_rect_base_def widget_to_base_def truediv_def
        bind_def Let_def)
  have right_edge: "fdiv E cx bw = 1 - (of_int (img_width wm) / 2) / bw"
    if "fsub E = (-)" "fdiv E = (/)" "half_w \<le> bw - half_w" "bw - half_w \<le> want_x"
  proof -
    have "cx = bw - half_w"
      unfolding cx_def using that by (simp add: clamp_above)
    moreover have "bw \<noteq> 0"
      using assms by simp
    ultimately show ?thesis
      using that by (simp add: half_w_def diff_divide_distrib)
  qed
  show ?thesis
    using emitted right_edge clamp_between clamp_inverted unfolding cx_def cy_def by blast
qed

text \<open>
  An overlay of half the base width (50 on 100), dragged to x = 500: the normalised x is
  3/4 = 1 - 25/100.
\<close>

theorem drag_clamps_center_witness:
  "dragging (example_widget 50)
   \<and> base_pixmap (example_widget 50) = Some (example_image 100 100)
   \<and> watermark_pixmap (example_widget 50) = Some (example_image 50 20)
   \<and> scale_factor (example_widget 50) \<noteq> 0
   \<and> 0 < img_width (example_image 100 100) \<and> 0 < img_height (example_image 100 100)
   \<and> mouseMoveEvent example_env (example_widget 50) (500, 50)
       = Inr (Accepted [positionChanged (3 / 4) (1 / 2), anchorChanged CENTER])
   \<and> (3 / 4 :: real) = 1 - (50 / 2) / 100"
  using drag_clamps_center [of "example_widget 50" "example_image 100 100" "example_image 50 20"
      example_env "(500, 50)"]
  by (simp add: example_widget_def example_image_def example_env_fields clamp_def)

text \<open>
  The claim's midpoint fails for an overlay wider than the base: 120 on 100 gives
  half width 60 > 50, and the emitted x is 60/100, not the midpoint 50/100.
\<close>

theorem drag_wide_overlay_counterexample:
  "mouseMoveEvent example_env (example_widget 120) (500, 50)
     = Inr (Accepted [positionChanged (3 / 5) (1 / 2), anchorChanged CENTER])
   \<and> (120 / 2 :: real) > 100 / 2
   \<and> (3 / 5 :: real) \<noteq> (100 / 2) / 100"
  by (simp add: mouseMoveEvent_def watermark_rect_base_def widget_to_base_def truediv_def
      bind_def example_widget_def example_image_def example_env_fields clamp_def
      WatermarkLayout_default_def)

subsection \<open>Serialising the settings\<close>

lemma TextWatermarkSettings_roundtrip:
  "TextWatermarkSettings_from_dict (TextWatermarkSettings_to_dict s) = Inr s"
  by (cases s; cases "color s"; cases "shadow_offset s")
     (simp add: TextWatermarkSettings_from_dict_def TextWatermarkSettings_to_dict_def
       kwargs_def TextWatermarkSettings_fields_def field_def bind_def as_color_def
       as_int_pair_def)

lemma ImageWatermarkSettings_roundtrip:
  "ImageWatermarkSettings_from_dict (ImageWatermarkSettings_to_dict s) = Inr s"
  by (cases s; cases "image_path s")
     (simp_all add: ImageWatermarkSettings_from_dict_def ImageWatermarkSettings_to_dict_def
       kwargs_def ImageWatermarkSettings_fields_def field_def bind_def)

lemma WatermarkAnchor_roundtrip: "WatermarkAnchor_of_value (PStr (WatermarkAnchor_value a)) = Inr a"
  by (cases a) (simp_all add: WatermarkAnchor_of_value_def)

lemma WatermarkType_roundtrip: "WatermarkType_of_value (PStr (WatermarkType_value t)) = Inr t"
  by (cases t) (simp_all add: WatermarkType_of_value_def)

lemma WatermarkLayout_roundtrip: "WatermarkLayout_from_dict (WatermarkLayout_to_dict s) = Inr s"
  by (cases s; cases "position s")
     (simp add: WatermarkLayout_from_dict_def WatermarkLayout_to_dict_def get_method_def
        dict_get_def bind_def WatermarkAnchor_roundtrip)

text \<open>
  C4. For every settings value, \<^verbatim>\<open>from_dict\<close> of \<^verbatim>\<open>to_dict\<close> succeeds and gives the value
  back: the type, the rotation, and every field of the text settings, the image settings
  and the layout.
\<close>

theorem WatermarkSettings_roundtrip:
  "WatermarkSettings_from_dict (WatermarkSettings_to_dict s) = Inr s"
  by (cases s)
     (simp add: WatermarkSettings_from_dict_def WatermarkSettings_to_dict_def get_method_def
        dict_get_def bind_def TextWatermarkSettings_roundtrip ImageWatermarkSettings_roundtrip
        WatermarkLayout_roundtrip WatermarkType_roundtrip)

theorem WatermarkSettings_roundtrip_witness:
  "WatermarkSettings_from_dict (WatermarkSettings_to_dict example_settings) = Inr example_settings"
  using WatermarkSettings_roundtrip [of example_settings] by simp

subsection \<open>Batch export\<close>

text \<open>The check stops at a matching item unless \<^verbatim>\<open>samefile\<close> raises on an item before it.\<close>

lemma check_reaches_match:
  assumes "\<forall>i \<in> set before. \<exists>b. samefile E d (parent (path i)) = Inr b"
    "samefile E d (parent (path item)) = Inr True"
  shows "output_dir_is_source_dir E d (before @ item # rest) = Inr True"
  using assms by (induction before) auto

lemma check_raises_first:
  assumes "\<forall>i \<in> set before. samefile E d (parent (path i)) = Inr False"
    "samefile E d (parent (path item)) = Inl e"
  shows "output_dir_is_source_dir E d (before @ item # rest) = Inl e"
  using assms by (induction before) auto

lemma check_not_false:
  assumes "item \<in> set items" "samefile E d (parent (path item)) = Inr True"
  shows "output_dir_is_source_dir E d items \<noteq> Inr False"
  using assms by (induction items) (auto split: sum.split)

text \<open>
  C5, as the code has it. With \<^verbatim>\<open>prevent_overwrite\<close> set and an output directory that is
  the same location as the parent directory of some item of the batch, \<^verbatim>\<open>_export_images\<close>
  never reaches an item: it returns with the file system as it was, and not with a count of
  exported files. When the output directory could be created and \<^verbatim>\<open>samefile\<close> answers on
  every item before the matching one, the call ends with the warning about the source
  folder. The items are compared in list order, so when \<^verbatim>\<open>samefile\<close> raises on an item
  before any match (its parent directory is gone), the call ends with that exception
  instead of the warning, still with nothing written.
\<close>

theorem export_aborts_on_source_directory:
  assumes "prevent_overwrite es" "output_dir es = Some d" "items = before @ item # rest"
    "samefile E d (parent (path item)) = Inr True"
  shows "(\<exists>out. export_images E es ws fs items = Some (fs, out) \<and> (\<forall>n. out \<noteq> Completed n))
    \<and> (d \<noteq> [] \<and> \<not> mkdir_raises E d
         \<and> (\<forall>i \<in> set before. \<exists>b. samefile E d (parent (path i)) = Inr b) \<longrightarrow>
           export_images E es ws fs items = Some (fs, Warned InvalidOutputDir))
    \<and> (d \<noteq> [] \<and> \<not> mkdir_raises E d \<longrightarrow>
         (\<forall>pre i post e. before = pre @ i # post
            \<and> (\<forall>j \<in> set pre. samefile E d (parent (path j)) = Inr False)
            \<and> samefile E d (parent (path i)) = Inl e \<longrightarrow>
              export_images E es ws fs items = Some (fs, Raised e)))"
proof -
  have member: "item \<in> set items"
    using assms(3) by simp
  have nothing_written:
    "\<exists>out. export_images E es ws fs items = Some (fs, out) \<and> (\<forall>n. out \<noteq> Completed n)"
    using assms(1,2) check_not_false [OF member assms(4)]
    by (cases "output_dir_is_source_dir E d items") (auto simp add: export_images_def)
  have warned: "export_images E es ws fs items = Some (fs, Warned InvalidOutputDir)"
    if "d \<noteq> []" "\<not> mkdir_raises E d"
      "\<forall>i \<in> set before. \<exists>b. samefile E d (parent (path i)) = Inr b"
    using that assms(1,2) check_reaches_match [OF that(3) assms(4), of rest]
    by (simp add: export_images_def assms(3))
  have raised: "export_images E es ws fs items = Some (fs, Raised e)"
    if "d \<noteq> []" "\<not> mkdir_raises E d" "before = pre @ i # post"
      "\<forall>j \<in> set pre. samefile E d (parent (path j)) = Inr False"
      "samefile E d (parent (path i)) = Inl e" for pre i post e
    using that(1,2) assms(1,2) check_raises_first [OF that(4,5), of "post @ item # rest"]
    by (simp add: export_images_def assms(3) that(3))
  show ?thesis
    using nothing_written warned raised by blast
qed

theorem export_aborts_on_source_directory_witness:
  "prevent_overwrite (ExportSettings_default\<lparr>output_dir := Some (py ''photos'')\<rparr>)
   \<and> output_dir (ExportSettings_default\<lparr>output_dir := Some (py ''photos'')\<rparr>) = Some (py ''photos'')
   \<and> samefile example_env (py ''photos'')
        (parent (path \<lparr>path = joinpath (py ''photos'') (py ''b.jpg'')\<rparr>)) = Inr True
   \<and> samefile example_env (py ''photos'')
        (parent (path \<lparr>path = joinpath (py ''elsewhere'') (py ''a.jpg'')\<rparr>)) = Inr False
   \<and> \<not> mkdir_raises example_env (py ''photos'')
   \<and> export_images example_env (ExportSettings_default\<lparr>output_dir := Some (py ''photos'')\<rparr>)
        WatermarkSettings_default example_fs
        [\<lparr>path = joinpath (py ''elsewhere'') (py ''a.jpg'')\<rparr>,
         \<lparr>path = joinpath (py ''photos'') (py ''b.jpg'')\<rparr>]
       = Some (example_fs, Warned InvalidOutputDir)"
proof -
  let ?es = "ExportSettings_default\<lparr>output_dir := Some (py ''photos'')\<rparr>"
  let ?a = "\<lparr>path = joinpath (py ''elsewhere'') (py ''a.jpg'')\<rparr>"
  let ?b = "\<lparr>path = joinpath (py ''photos'') (py ''b.jpg'')\<rparr>"
  have enabled: "prevent_overwrite ?es"
    and chosen: "output_dir ?es = Some (py ''photos'')"
    by (simp_all add: ExportSettings_default_def)
  have items: "[?a, ?b] = [?a] @ ?b # []"
    by simp
  have same: "samefile example_env (py ''photos'') (parent (path ?b)) = Inr True"
    and other: "samefile example_env (py ''photos'') (parent (path ?a)) = Inr False"
    and created: "\<not> mkdir_raises example_env (py ''photos'')"
    by (simp_all add: example_env_fields joinpath_def)
  from other have answered:
    "\<forall>i \<in> set [?a]. \<exists>b. samefile example_env (py ''photos'') (parent (path i)) = Inr b"
    by auto
  have "py ''photos'' \<noteq> []"
    by simp
  with export_aborts_on_source_directory [OF enabled chosen items same,
      of WatermarkSettings_default example_fs] created answered
  have "export_images example_env ?es WatermarkSettings_default example_fs [?a, ?b]
      = Some (example_fs, Warned InvalidOutputDir)"
    by blast
  with enabled chosen same other created show ?thesis
    by simp
qed

text \<open>
  The claim fails when an earlier item's directory is gone: with the items
  \<^verbatim>\<open>gone/a.jpg\<close> and \<^verbatim>\<open>photos/b.jpg\<close> and the output directory \<^verbatim>\<open>photos\<close>,
  \<^verbatim>\<open>samefile\<close> raises on the first item, and the call ends with the FileNotFoundError and
  not with the warning, although the second item lies in the output directory.
\<close>

theorem export_raises_before_match_counterexample:
  "prevent_overwrite (ExportSettings_default\<lparr>output_dir := Some (py ''photos'')\<rparr>)
   \<and> samefile example_env (py ''photos'')
        (parent (path \<lparr>path = joinpath (py ''photos'') (py ''b.jpg'')\<rparr>)) = Inr True
   \<and> export_images example_env (ExportSettings_default\<lparr>output_dir := Some (py ''photos'')\<rparr>)
        WatermarkSettings_default example_fs
        [\<lparr>path = joinpath (py ''gone'') (py ''a.jpg'')\<rparr>,
         \<lparr>path = joinpath (py ''photos'') (py ''b.jpg'')\<rparr>]
       = Some (example_fs, Raised FileNotFoundError)"
  by (simp add: export_images_def ExportSettings_default_def example_env_fields joinpath_def)

subsection \<open>Naming the output file\<close>

lemma digits_small: "n < 10 \<Longrightarrow> digits n = [48 + n]"
  by (simp add: digits.simps [of n])

lemma digits_large: "\<not> n < 10 \<Longrightarrow> digits n = digits (n div 10) @ [48 + n mod 10]"
  by (simp add: digits.simps [of n])

lemma digits_nonempty: "digits n \<noteq> []"
  by (cases "n < 10") (simp_all add: digits_small digits_large)

text \<open>Two numbers with the same decimal digits are equal.\<close>

lemma digits_inj: "digits n = digits m \<Longrightarrow> n = m"
proof (induction n arbitrary: m rule: digits.induct)
  case (1 n)
  show ?case
  proof (cases "n < 10")
    case n_small: True
    show ?thesis
    proof (cases "m < 10")
      case True
      with n_small "1.prems" show ?thesis
        by (simp add: digits_small)
    next
      case False
      with n_small "1.prems" digits_nonempty [of "m div 10"] show ?thesis
        by (simp add: digits_small digits_large)
    qed
  next
    case n_large: False
    show ?thesis
    proof (cases "m < 10")
      case True
      with n_large "1.prems" digits_nonempty [of "n div 10"] show ?thesis
        by (simp add: digits_small digits_large)
    next
      case False
      with n_large "1.prems" have "digits (n div 10) = digits (m div 10)"
        and "n mod 10 = m mod 10"
        by (simp_all add: digits_large)
      with "1.IH" [OF n_large] have "n div 10 = m div 10" and "n mod 10 = m mod 10"
        by simp_all
      then show ?thesis
        by (metis div_mult_mod_eq)
    qed
  qed
qed

lemma str_int_inj: "0 \<le> i \<Longrightarrow> 0 \<le> j \<Longrightarrow> str_int i = str_int j \<Longrightarrow> i = j"
  using digits_inj [of "nat i" "nat j"] by (simp add: str_int_def)

lemma candidate_inj:
  assumes "0 \<le> i" "0 \<le> j"
    "joinpath d (st @ u @ str_int i @ ext) = joinpath d (st @ u @ str_int j @ ext)"
  shows "i = j"
  using assms str_int_inj [of i j] by (simp add: joinpath_def)

text \<open>In a finite file system, some numbered candidate from any start on is free.\<close>

lemma some_candidate_free:
  assumes "finite (dom fs)" "0 \<le> k"
  shows "\<exists>j::nat. fs (joinpath d (st @ u @ str_int (k + int j) @ ext)) = None"
proof (rule ccontr)
  let ?c = "\<lambda>j::nat. joinpath d (st @ u @ str_int (k + int j) @ ext)"
  assume "\<not> (\<exists>j. fs (?c j) = None)"
  then have "range ?c \<subseteq> dom fs"
    by auto
  with assms(1) have "finite (range ?c)"
    by (rule rev_finite_subset)
  moreover have "inj ?c"
  proof (rule injI)
    fix a b :: nat
    assume "?c a = ?c b"
    with assms(2) candidate_inj [of "k + int a" "k + int b" d st u ext] show "a = b"
      by simp
  qed
  ultimately have "finite (UNIV :: nat set)"
    by (rule finite_imageD)
  then show False
    by simp
qed

text \<open>
  The loop, started at candidate \<open>k\<close>, passes the candidates that exist and ends at the
  first one that does not exist or on which \<^verbatim>\<open>exists()\<close> raises.
\<close>

lemma loop_finds:
  assumes "path_exists E fs (joinpath d (st @ py ''_'' @ str_int (k + int j) @ ext)) \<noteq> Inr True"
    "\<forall>i<j. path_exists E fs (joinpath d (st @ py ''_'' @ str_int (k + int i) @ ext)) = Inr True"
  shows "determine_output_path_loop E fs d st ext
           (joinpath d (st @ py ''_'' @ str_int k @ ext)) (k + 1)
         = Some (if exists_raises E (joinpath d (st @ py ''_'' @ str_int (k + int j) @ ext))
                 then Inl OSError
                 else Inr (joinpath d (st @ py ''_'' @ str_int (k + int j) @ ext)))"
  using assms
proof (induction j arbitrary: k)
  case 0
  then show ?case
    by (subst determine_output_path_loop.simps) (auto simp add: path_exists_def split: if_splits)
next
  case (Suc j)
  have shift: "k + int (Suc i) = k + 1 + int i" for i
    by simp
  from Suc.prems(2)
  have here: "path_exists E fs (joinpath d (st @ py ''_'' @ str_int k @ ext)) = Inr True"
    by (metis add.right_neutral of_nat_0 zero_less_Suc)
  have stop: "path_exists E fs (joinpath d (st @ py ''_'' @ str_int (k + 1 + int j) @ ext))
      \<noteq> Inr True"
    using Suc.prems(1) unfolding shift by assumption
  have passed: "\<forall>i<j. path_exists E fs
      (joinpath d (st @ py ''_'' @ str_int (k + 1 + int i) @ ext)) = Inr True"
  proof (intro allI impI)
    fix i assume "i < j"
    then have "Suc i < Suc j" by simp
    with Suc.prems(2)
    have "path_exists E fs (joinpath d (st @ py ''_'' @ str_int (k + int (Suc i)) @ ext))
        = Inr True"
      by blast
    then show "path_exists E fs (joinpath d (st @ py ''_'' @ str_int (k + 1 + int i) @ ext))
        = Inr True"
      by (simp only: shift)
  qed
  have "determine_output_path_loop E fs d st ext
          (joinpath d (st @ py ''_'' @ str_int k @ ext)) (k + 1)
      = determine_output_path_loop E fs d st ext
          (joinpath d (st @ py ''_'' @ str_int (k + 1) @ ext)) (k + 1 + 1)"
    using here by (subst determine_output_path_loop.simps) simp
  also have "\<dots> = Some (if exists_raises E
                             (joinpath d (st @ py ''_'' @ str_int (k + 1 + int j) @ ext))
                          then Inl OSError
                          else Inr (joinpath d (st @ py ''_'' @ str_int (k + 1 + int j) @ ext)))"
    using stop passed by (rule Suc.IH)
  finally show ?case
    by (simp only: shift)
qed

text \<open>A run of the letter \<^verbatim>\<open>a\<close>: its stem before a dot, and its length in bytes.\<close>

lemma takeWhile_letters:
  "takeWhile (\<lambda>c. c \<noteq> 46) (replicate n (97 :: nat) @ 46 # rest) = replicate n 97"
  by (induction n) simp_all

lemma utf8_length_append: "utf8_length (a @ b) = utf8_length a + utf8_length b"
  by (simp add: utf8_length_def)

lemma utf8_length_letters: "utf8_length (replicate n 97) = n"
  by (induction n) (simp_all add: utf8_length_def)

lemma path_exists_cases:
  "path_exists E fs p = Inr True \<longleftrightarrow> \<not> exists_raises E p \<and> fs p \<noteq> None"
  "path_exists E fs p \<noteq> Inr True \<longleftrightarrow> exists_raises E p \<or> fs p = None"
  by (auto simp add: path_exists_def)

text \<open>
  C6, as the code has it. In a file system with finitely many entries,
  \<^verbatim>\<open>_determine_output_path\<close> ends. The name it tries first is the stem (unchanged for keep,
  prefix + stem, stem + suffix) followed by \<^verbatim>\<open>.png\<close> when the lower-cased format is
  \<^verbatim>\<open>png\<close> and by \<^verbatim>\<open>.jpg\<close> otherwise; when that path exists, it tries the stem, an
  underscore, the decimal digits of n and the extension, for n = 1, 2, ... in turn. It
  returns the first of these paths that does not exist, unless \<^verbatim>\<open>exists()\<close> raises on that
  path or on one before it (a name beyond the length limit of the file system): then it
  ends with that OSError.
\<close>

theorem determine_output_path_first_free:
  fixes E :: env and es :: ExportSettings and fs :: filesystem and source :: Path and d :: pystr
  defines "st \<equiv> (if naming_mode es = PREFIX then custom_prefix es @ stem E source
                  else if naming_mode es = SUFFIX then stem E source @ custom_suffix es
                  else stem E source)"
    and "ext \<equiv> (if lower (output_format es) = py ''png'' then py ''.png'' else py ''.jpg'')"
  assumes "finite (dom fs)"
  shows "\<exists>r. determine_output_path E es fs source d = Some r
      \<and> (if exists_raises E (joinpath d (st @ ext)) then r = Inl OSError
         else if fs (joinpath d (st @ ext)) = None then r = Inr (joinpath d (st @ ext))
         else \<exists>n\<ge>1.
                (\<forall>m. 1 \<le> m \<and> m < n \<longrightarrow>
                   \<not> exists_raises E (joinpath d (st @ py ''_'' @ str_int m @ ext))
                   \<and> fs (joinpath d (st @ py ''_'' @ str_int m @ ext)) \<noteq> None)
                \<and> (if exists_raises E (joinpath d (st @ py ''_'' @ str_int n @ ext))
                   then r = Inl OSError
                   else fs (joinpath d (st @ py ''_'' @ str_int n @ ext)) = None
                        \<and> r = Inr (joinpath d (st @ py ''_'' @ str_int n @ ext))))"
proof -
  let ?cand = "\<lambda>n. joinpath d (st @ py ''_'' @ str_int n @ ext)"
  let ?base = "joinpath d (st @ ext)"
  have start: "determine_output_path E es fs source d
      = determine_output_path_loop E fs d st ext ?base 1"
    by (simp add: determine_output_path_def st_def ext_def Let_def)
  show ?thesis
  proof (cases "path_exists E fs ?base = Inr True")
    case False
    then have "determine_output_path E es fs source d
        = Some (if exists_raises E ?base then Inl OSError else Inr ?base)"
      unfolding start
      by (subst determine_output_path_loop.simps)
         (auto simp add: path_exists_def split: if_splits)
    with False show ?thesis
      by (simp add: path_exists_def split: if_splits)
  next
    case True
    from assms(3) have "\<exists>j::nat. fs (?cand (1 + int j)) = None"
      by (rule some_candidate_free) simp
    then have "\<exists>j::nat. path_exists E fs (?cand (1 + int j)) \<noteq> Inr True"
      by (auto simp add: path_exists_def)
    then obtain j :: nat where stop: "path_exists E fs (?cand (1 + int j)) \<noteq> Inr True"
      and least: "\<forall>i<j. path_exists E fs (?cand (1 + int i)) = Inr True"
      using exists_least_iff [of "\<lambda>j. path_exists E fs (?cand (1 + int j)) \<noteq> Inr True"]
      by auto
    have "determine_output_path E es fs source d
        = determine_output_path_loop E fs d st ext (?cand 1) (1 + 1)"
      unfolding start using True by (subst determine_output_path_loop.simps) simp
    also have "\<dots> = Some (if exists_raises E (?cand (1 + int j)) then Inl OSError
                            else Inr (?cand (1 + int j)))"
      using stop least by (rule loop_finds)
    finally have res: "determine_output_path E es fs source d
        = Some (if exists_raises E (?cand (1 + int j)) then Inl OSError
                else Inr (?cand (1 + int j)))" .
    define r where "r = (if exists_raises E (?cand (1 + int j)) then Inl OSError
                         else Inr (?cand (1 + int j)))"
    have below: "\<not> exists_raises E (?cand m) \<and> fs (?cand m) \<noteq> None"
      if "1 \<le> m" "m < 1 + int j" for m
    proof -
      from that have "nat (m - 1) < j" and "m = 1 + int (nat (m - 1))"
        by simp_all
      with least have "path_exists E fs (?cand m) = Inr True"
        by metis
      then show ?thesis
        by (simp add: path_exists_cases)
    qed
    from stop have last: "exists_raises E (?cand (1 + int j)) \<or> fs (?cand (1 + int j)) = None"
      by (simp add: path_exists_cases)
    have numbered: "\<exists>n\<ge>1.
        (\<forall>m. 1 \<le> m \<and> m < n \<longrightarrow> \<not> exists_raises E (?cand m) \<and> fs (?cand m) \<noteq> None)
        \<and> (if exists_raises E (?cand n) then r = Inl OSError
           else fs (?cand n) = None \<and> r = Inr (?cand n))"
    proof (intro exI [of _ "1 + int j"] conjI)
      show "1 \<le> 1 + int j"
        by simp
      show "\<forall>m. 1 \<le> m \<and> m < 1 + int j \<longrightarrow>
          \<not> exists_raises E (?cand m) \<and> fs (?cand m) \<noteq> None"
        using below by blast
      show "if exists_raises E (?cand (1 + int j)) then r = Inl OSError
          else fs (?cand (1 + int j)) = None \<and> r = Inr (?cand (1 + int j))"
        using last by (simp only: r_def split: if_split) blast
    qed
    from True have base_there: "\<not> exists_raises E ?base" "fs ?base \<noteq> None"
      by (simp_all add: path_exists_cases)
    from numbered have "if exists_raises E ?base then r = Inl OSError
        else if fs ?base = None then r = Inr ?base
        else \<exists>n\<ge>1.
          (\<forall>m. 1 \<le> m \<and> m < n \<longrightarrow> \<not> exists_raises E (?cand m) \<and> fs (?cand m) \<noteq> None)
          \<and> (if exists_raises E (?cand n) then r = Inl OSError
             else fs (?cand n) = None \<and> r = Inr (?cand n))"
      by (simp only: base_there if_False)
    moreover from res have "determine_output_path E es fs source d = Some r"
      by (simp only: r_def)
    ultimately show ?thesis
      by blast
  qed
qed

text \<open>
  With \<^verbatim>\<open>a_watermarked.png\<close> and \<^verbatim>\<open>a_watermarked_1.png\<close> in the output directory, the
  export of \<^verbatim>\<open>a.jpg\<close> under the default settings is named \<^verbatim>\<open>a_watermarked_2.png\<close>.
\<close>

theorem determine_output_path_first_free_witness:
  "finite (dom example_fs)
   \<and> determine_output_path example_env ExportSettings_default example_fs
        (joinpath (py ''src'') (py ''a.jpg'')) (py ''out'')
       = Some (Inr (joinpath (py ''out'') (py ''a_watermarked_2.png'')))"
proof -
  let ?cand = "\<lambda>n. joinpath (py ''out'') (py ''a_watermarked'' @ py ''_'' @ str_int n @ py ''.png'')"
  let ?base = "joinpath (py ''out'') (py ''a_watermarked'' @ py ''.png'')"
  have fin: "finite (dom example_fs)"
    by (simp add: example_fs_def)
  have st: "(if naming_mode ExportSettings_default = PREFIX
             then custom_prefix ExportSettings_default
                    @ stem example_env (joinpath (py ''src'') (py ''a.jpg''))
             else if naming_mode ExportSettings_default = SUFFIX
             then stem example_env (joinpath (py ''src'') (py ''a.jpg''))
                    @ custom_suffix ExportSettings_default
             else stem example_env (joinpath (py ''src'') (py ''a.jpg''))) = py ''a_watermarked''"
    by (simp add: ExportSettings_default_def example_env_fields joinpath_def)
  have ext: "(if lower (output_format ExportSettings_default) = py ''png''
              then py ''.png'' else py ''.jpg'') = py ''.png''"
    by (simp add: ExportSettings_default_def lower_def)
  have short: "\<not> exists_raises example_env ?base" "\<not> exists_raises example_env (?cand 1)"
    "\<not> exists_raises example_env (?cand 2)"
    by (simp_all add: example_env_fields utf8_length_def joinpath_def str_int_def digits_small)
  have plain: "example_fs ?base \<noteq> None"
    by (simp add: example_fs_def joinpath_def)
  have one: "example_fs (?cand 1) \<noteq> None"
    by (simp add: example_fs_def joinpath_def str_int_def digits_small)
  have two: "example_fs (?cand 2) = None"
    by (simp add: example_fs_def joinpath_def str_int_def digits_small)
  note general = determine_output_path_first_free [OF fin, of example_env
      ExportSettings_default "joinpath (py ''src'') (py ''a.jpg'')" "py ''out''",
      unfolded st ext]
  have "\<exists>r. determine_output_path example_env ExportSettings_default example_fs
        (joinpath (py ''src'') (py ''a.jpg'')) (py ''out'') = Some r
      \<and> (\<exists>n\<ge>1.
            (\<forall>m. 1 \<le> m \<and> m < n \<longrightarrow>
               \<not> exists_raises example_env (?cand m) \<and> example_fs (?cand m) \<noteq> None)
            \<and> (if exists_raises example_env (?cand n) then r = Inl OSError
               else example_fs (?cand n) = None \<and> r = Inr (?cand n)))"
    using general by (simp only: short(1) plain if_False)
  then obtain r n where res: "determine_output_path example_env ExportSettings_default example_fs
        (joinpath (py ''src'') (py ''a.jpg'')) (py ''out'') = Some r"
    and n: "1 \<le> n"
    and before: "\<forall>m. 1 \<le> m \<and> m < n \<longrightarrow>
        \<not> exists_raises example_env (?cand m) \<and> example_fs (?cand m) \<noteq> None"
    and at_n: "if exists_raises example_env (?cand n) then r = Inl OSError
        else example_fs (?cand n) = None \<and> r = Inr (?cand n)"
    by blast
  have "\<not> 2 < n"
  proof
    assume "2 < n"
    with before [rule_format, of 2] have "example_fs (?cand 2) \<noteq> None"
      by simp
    with two show False
      by blast
  qed
  moreover have "n \<noteq> 1"
  proof
    assume "n = 1"
    with at_n short(2) have "example_fs (?cand 1) = None"
      by (simp only: if_False)
    with one show False
      by blast
  qed
  ultimately have "n = 2"
    using n by arith
  with at_n short(3) have "r = Inr (?cand 2)"
    by (simp only: if_False)
  with res fin show ?thesis
    by (simp add: joinpath_def str_int_def digits_small)
qed

text \<open>
  The claim fails for a long stem: a source \<^verbatim>\<open>aa...a.jpg\<close> with 250 letters gives the
  name \<^verbatim>\<open>aa...a_watermarked.png\<close> of 266 bytes, on which \<^verbatim>\<open>exists()\<close> raises; no path is
  returned.
\<close>

theorem determine_output_path_long_name_counterexample:
  "determine_output_path example_env ExportSettings_default example_fs
     (joinpath (py ''src'') (example_long_stem @ py ''.jpg'')) (py ''out'')
     = Some (Inl OSError)
   \<and> length example_long_stem = 250
   \<and> utf8_length (example_long_stem @ py ''_watermarked'' @ py ''.png'') = 266"
proof -
  let ?target = "joinpath (py ''out'') (example_long_stem @ py ''_watermarked'' @ py ''.png'')"
  have stem: "stem example_env (joinpath (py ''src'') (example_long_stem @ py ''.jpg''))
      = example_long_stem"
    using takeWhile_letters [of 250 "py ''jpg''"]
    by (simp add: example_env_fields joinpath_def example_long_stem_def)
  have len: "utf8_length (example_long_stem @ py ''_watermarked'' @ py ''.png'') = 266"
    by (simp add: utf8_length_append utf8_length_letters example_long_stem_def)
       (simp add: utf8_length_def)
  have raises: "path_exists example_env example_fs ?target = Inl OSError"
    using len by (simp add: path_exists_def example_env_fields joinpath_def)
  have "determine_output_path example_env ExportSettings_default example_fs
      (joinpath (py ''src'') (example_long_stem @ py ''.jpg'')) (py ''out'')
      = determine_output_path_loop example_env example_fs (py ''out'')
          (example_long_stem @ py ''_watermarked'') (py ''.png'') ?target 1"
    unfolding determine_output_path_def Let_def stem
    by (simp add: ExportSettings_default_def lower_def)
  also have "\<dots> = Some (Inl OSError)"
    by (subst determine_output_path_loop.simps) (simp only: raises sum.case)
  finally show ?thesis
    using len by (simp add: example_long_stem_def)
qed

subsection \<open>The renderer without an overlay\<close>

lemma strip_whitespace:
  assumes "\<forall>c \<in> set s. isspace c"
  shows "strip s = []"
proof -
  have all_dropped: "dropWhile isspace s = []"
    using assms by (simp add: dropWhile_eq_Nil_conv)
  show ?thesis
    by (simp only: strip_def all_dropped rev.simps dropWhile.simps)
qed

text \<open>
  C7. For settings of type TEXT whose text is empty or consists of whitespace only,
  \<^verbatim>\<open>build_watermark\<close> yields no pixmap, and \<^verbatim>\<open>apply_watermark\<close> on any base image leaves
  the base image as it was and returns an image equal to it.
\<close>

theorem empty_text_gives_plain_copy:
  assumes "watermark_type s = TEXT" "\<forall>c \<in> set (wm_text (text_settings s)). isspace c"
  shows "pixmap (build_watermark E sz s) = None
    \<and> apply_watermark E base s pos ratio = (base, base)"
  using assms
  by (simp add: build_watermark_def build_text_watermark_def strip_whitespace
      apply_watermark_def QPainter_def)

text \<open>A text of a space and an ideographic space (U+3000).\<close>

theorem empty_text_gives_plain_copy_witness:
  "watermark_type (WatermarkSettings_default
      \<lparr>text_settings := TextWatermarkSettings_default\<lparr>wm_text := [32, 12288]\<rparr>\<rparr>) = TEXT
   \<and> isspace 32 \<and> isspace 12288
   \<and> pixmap (build_watermark example_env (8, 4)
        (WatermarkSettings_default
           \<lparr>text_settings := TextWatermarkSettings_default\<lparr>wm_text := [32, 12288]\<rparr>\<rparr>)) = None
   \<and> apply_watermark example_env (example_image 8 4)
        (WatermarkSettings_default
           \<lparr>text_settings := TextWatermarkSettings_default\<lparr>wm_text := [32, 12288]\<rparr>\<rparr>)
        (4, 2) (0.5, 0.5)
       = (example_image 8 4, example_image 8 4)"
  using empty_text_gives_plain_copy
    [of "WatermarkSettings_default
           \<lparr>text_settings := TextWatermarkSettings_default\<lparr>wm_text := [32, 12288]\<rparr>\<rparr>"
        example_env "(8, 4)" "example_image 8 4" "(4, 2)" "(0.5, 0.5)"]
  by (simp add: WatermarkSettings_default_def isspace_def)

subsection \<open>Templates\<close>

text \<open>None of the readers and none of the \<^verbatim>\<open>from_dict\<close> functions raises FileNotFoundError.\<close>

lemma found_Inr: "found (Inr v)"
  by (simp add: found_def)

lemma found_Inl: "e \<noteq> FileNotFoundError \<Longrightarrow> found (Inl e)"
  by (simp add: found_def)

lemma found_bind: "found r \<Longrightarrow> (\<And>v. found (f v)) \<Longrightarrow> found (bind r f)"
  by (cases r) (simp_all add: found_def bind_def)

lemma found_field: "(\<And>v. found (read v)) \<Longrightarrow> found (field d k read dflt)"
  by (simp add: field_def found_Inr split: option.split)

lemma found_readers:
  "found (as_str v)" "found (as_opt_str v)" "found (as_int v)" "found (as_opt_int v)"
  "found (as_bool v)" "found (as_float v)" "found (py_float v)" "found (py_int v)"
  by (cases v; simp add: found_def)+

lemma found_as_float_pair: "found (as_float_pair v)"
  unfolding as_float_pair_def
  by (auto intro!: found_bind found_Inr found_Inl found_readers split: option.split list.split)

lemma found_as_int_pair: "found (as_int_pair v)"
  unfolding as_int_pair_def
  by (auto intro!: found_Inr found_Inl split: option.split list.split pyval.split)

lemma found_as_color: "found (as_color v)"
  unfolding as_color_def
  by (auto intro!: found_Inr found_Inl split: option.split list.split pyval.split)

lemma found_kwargs: "found (kwargs names v)"
  by (simp add: kwargs_def found_def split: pyval.split)

lemma found_get_method: "found (get_method v)"
  by (simp add: get_method_def found_def split: pyval.split)

lemma found_of_value:
  "found (WatermarkType_of_value v)" "found (WatermarkAnchor_of_value v)"
  "found (ExportNamingMode_of_value v)" "found (ResizeMode_of_value v)"
  by (simp_all add: found_def WatermarkType_of_value_def WatermarkAnchor_of_value_def
      ExportNamingMode_of_value_def ResizeMode_of_value_def)

lemmas found_intros = found_bind found_field found_readers found_as_float_pair
  found_as_int_pair found_as_color found_kwargs found_get_method found_of_value found_Inr

lemma found_TextWatermarkSettings: "found (TextWatermarkSettings_from_dict v)"
  unfolding TextWatermarkSettings_from_dict_def by (intro found_intros)

lemma found_ImageWatermarkSettings: "found (ImageWatermarkSettings_from_dict v)"
  unfolding ImageWatermarkSettings_from_dict_def by (intro found_intros)

lemma found_WatermarkLayout: "found (WatermarkLayout_from_dict v)"
  unfolding WatermarkLayout_from_dict_def Let_def
  by (intro found_intros) (auto intro!: found_intros found_Inl split: pyval.split list.split)

lemma found_WatermarkSettings: "found (WatermarkSettings_from_dict v)"
  unfolding WatermarkSettings_from_dict_def
  by (intro found_intros found_TextWatermarkSettings found_ImageWatermarkSettings
      found_WatermarkLayout)

lemma found_ExportSettings: "found (ExportSettings_from_dict v)"
  unfolding ExportSettings_from_dict_def Let_def
  by (intro found_intros)

lemma bind_Inr: "bind (Inr v) f = f v"
  by (simp add: bind_def)

text \<open>A run of the letter \<^verbatim>\<open>a\<close> is its own stripped and sanitised form.\<close>

lemma strip_letters: "strip (replicate n 97) = replicate n 97"
  by (simp add: strip_def isspace_def dropWhile_replicate)

lemma sub_invalid_letters: "sub_invalid False (replicate n 97) = replicate n 97"
  by (induction n) (simp_all add: template_char_def)

text \<open>Loading a template whose file exists does not end in the FileNotFoundError.\<close>

lemma load_existing:
  assumes "template_path tm n = Inr p" "path_exists E fs p = Inr True"
  shows "found (load_template E fs tm n)"
proof -
  from assms(2) obtain content where content: "fs p = Some content"
    by (auto simp add: path_exists_def split: if_splits)
  show ?thesis
  proof (cases "json_loads E content")
    case None
    then show ?thesis
      using assms content by (simp add: load_template_def bind_Inr found_def)
  next
    case (Some raw)
    have "found (bind (get_method raw) (\<lambda>d.
            bind (WatermarkSettings_from_dict (dict_get d (py ''watermark'') (PDict []))) (\<lambda>w.
            bind (ExportSettings_from_dict (dict_get d (py ''export'') (PDict []))) (\<lambda>e.
            Inr (w, e)))))"
      by (intro found_bind found_get_method found_WatermarkSettings found_ExportSettings
          found_Inr)
    then show ?thesis
      using assms content Some by (simp add: load_template_def bind_Inr Let_def)
  qed
qed

lemma template_path_ok:
  "strip n \<noteq> [] \<Longrightarrow>
     template_path tm n
       = Inr (joinpath (templates_dir tm) (sub_invalid False (strip n) @ TEMPLATE_SUFFIX))"
  by (simp add: template_path_def sanitize_name_def bind_def)

lemma template_path_empty: "strip n = [] \<Longrightarrow> template_path tm n = Inl ValueError"
  by (simp add: template_path_def sanitize_name_def bind_def)

text \<open>
  C9, as the code has it. For a template name that is not empty after stripping, both
  operations first ask whether the file of the sanitised name exists. When \<^verbatim>\<open>exists()\<close>
  answers, \<^verbatim>\<open>load_template\<close> ends in the FileNotFoundError exactly when the answer is no
  (and then returns no settings at all), and \<^verbatim>\<open>delete_template\<close>, when the answer is no,
  changes nothing and does not fail. When \<^verbatim>\<open>exists()\<close> raises (a name beyond the length
  limit of the file system), both end with that error. For a name that is empty after
  stripping, both raise ValueError.
\<close>

theorem template_not_found_exactly_when_missing:
  fixes E :: env and fs :: filesystem and tm :: TemplateManager and n :: pystr
  defines "p \<equiv> joinpath (templates_dir tm) (sub_invalid False (strip n) @ TEMPLATE_SUFFIX)"
  shows "(strip n \<noteq> [] \<longrightarrow>
            (case path_exists E fs p of
               Inl e \<Rightarrow> load_template E fs tm n = Inl e \<and> delete_template E fs tm n = Inl e
             | Inr present \<Rightarrow>
                 (load_template E fs tm n = Inl FileNotFoundError \<longleftrightarrow> \<not> present)
                 \<and> (\<not> present \<longrightarrow> delete_template E fs tm n = Inr fs)))
    \<and> (strip n = [] \<longrightarrow>
            load_template E fs tm n = Inl ValueError
            \<and> delete_template E fs tm n = Inl ValueError)"
proof -
  have raised: "load_template E fs tm n = Inl e \<and> delete_template E fs tm n = Inl e"
    if "strip n \<noteq> []" "path_exists E fs p = Inl e" for e
    using that
    by (simp add: load_template_def delete_template_def template_path_ok bind_def p_def)
  have missing: "load_template E fs tm n = Inl FileNotFoundError
      \<and> delete_template E fs tm n = Inr fs"
    if "strip n \<noteq> []" "path_exists E fs p = Inr False"
    using that
    by (simp add: load_template_def delete_template_def template_path_ok bind_def p_def)
  have present: "load_template E fs tm n \<noteq> Inl FileNotFoundError"
    if "strip n \<noteq> []" "path_exists E fs p = Inr True"
  proof -
    from that have "found (load_template E fs tm n)"
      using load_existing [of tm n p E fs] by (simp add: template_path_ok p_def)
    then show ?thesis
      by (simp add: found_def)
  qed
  have empty: "load_template E fs tm n = Inl ValueError
      \<and> delete_template E fs tm n = Inl ValueError"
    if "strip n = []"
    using that by (simp add: load_template_def delete_template_def template_path_empty bind_def)
  show ?thesis
  proof (cases "path_exists E fs p")
    case (Inl e)
    with raised empty show ?thesis
      by simp
  next
    case (Inr answer)
    with missing present empty show ?thesis
      by (cases answer) simp_all
  qed
qed

text \<open>
  The name \<^verbatim>\<open>my template!\<close> is sanitised to \<^verbatim>\<open>my_template_\<close>; no such file exists.
\<close>

theorem template_not_found_exactly_when_missing_witness:
  "strip (py ''my template!'') \<noteq> []
   \<and> sub_invalid False (strip (py ''my template!'')) @ TEMPLATE_SUFFIX = py ''my_template_.json''
   \<and> path_exists example_env example_fs
        (joinpath (templates_dir example_manager) (py ''my_template_.json'')) = Inr False
   \<and> load_template example_env example_fs example_manager (py ''my template!'')
       = Inl FileNotFoundError
   \<and> delete_template example_env example_fs example_manager (py ''my template!'')
       = Inr example_fs"
proof -
  have stripped: "strip (py ''my template!'') = py ''my template!''"
    by (simp add: strip_def isspace_def)
  have sanitised: "sub_invalid False (py ''my template!'') @ TEMPLATE_SUFFIX
      = py ''my_template_.json''"
    by (simp add: template_char_def TEMPLATE_SUFFIX_def)
  have absent: "path_exists example_env example_fs
      (joinpath (templates_dir example_manager) (py ''my_template_.json'')) = Inr False"
    by (simp add: path_exists_def example_fs_def example_manager_def joinpath_def
        example_env_fields utf8_length_def)
  have "py ''my template!'' \<noteq> []"
    by simp
  with template_not_found_exactly_when_missing
      [of "py ''my template!''" example_env example_fs example_manager,
       unfolded stripped sanitised absent]
  have "load_template example_env example_fs example_manager (py ''my template!'')
        = Inl FileNotFoundError
      \<and> delete_template example_env example_fs example_manager (py ''my template!'')
        = Inr example_fs"
    by simp
  with stripped sanitised absent show ?thesis
    by simp
qed

text \<open>
  The claim fails for a name of whitespace only: no template file exists, yet
  \<^verbatim>\<open>load_template\<close> raises ValueError, not the not-found condition, and \<^verbatim>\<open>delete_template\<close>
  fails with the same error. It fails as well for a name of 251 letters, whose file name
  \<^verbatim>\<open>aa...a.json\<close> has 256 bytes: \<^verbatim>\<open>exists()\<close> raises, so that both operations end with
  the OSError although no such file exists.
\<close>

theorem template_blank_name_counterexample:
  "load_template example_env example_fs example_manager (py '' '') = Inl ValueError
   \<and> delete_template example_env example_fs example_manager (py '' '') = Inl ValueError
   \<and> example_fs (joinpath (templates_dir example_manager) (py ''.json'')) = None
   \<and> strip example_long_name \<noteq> []
   \<and> load_template example_env example_fs example_manager example_long_name = Inl OSError
   \<and> delete_template example_env example_fs example_manager example_long_name
       = Inl OSError
   \<and> example_fs (joinpath (templates_dir example_manager)
        (example_long_name @ py ''.json'')) = None"
proof -
  have blank: "load_template example_env example_fs example_manager (py '' '') = Inl ValueError
      \<and> delete_template example_env example_fs example_manager (py '' '') = Inl ValueError
      \<and> example_fs (joinpath (templates_dir example_manager) (py ''.json'')) = None"
    by (simp add: load_template_def delete_template_def template_path_def sanitize_name_def
        bind_def strip_def isspace_def example_fs_def example_manager_def joinpath_def)
  have stripped: "strip example_long_name = example_long_name"
    unfolding example_long_name_def by (rule strip_letters)
  have sanitised: "sub_invalid False example_long_name = example_long_name"
    unfolding example_long_name_def by (rule sub_invalid_letters)
  have nonempty: "example_long_name \<noteq> []"
    by (simp add: example_long_name_def)
  have "utf8_length (example_long_name @ py ''.json'') = 256"
    by (simp add: utf8_length_append utf8_length_letters example_long_name_def)
       (simp add: utf8_length_def)
  then have raises: "path_exists example_env example_fs
      (joinpath (templates_dir example_manager) (example_long_name @ py ''.json''))
      = Inl OSError"
    by (simp add: path_exists_def example_env_fields joinpath_def)
  have path: "template_path example_manager example_long_name
      = Inr (joinpath (templates_dir example_manager) (example_long_name @ py ''.json''))"
    by (simp add: template_path_def sanitize_name_def stripped sanitised nonempty bind_def
        TEMPLATE_SUFFIX_def)
  have long: "load_template example_env example_fs example_manager example_long_name
        = Inl OSError
      \<and> delete_template example_env example_fs example_manager example_long_name
        = Inl OSError"
    by (simp only: load_template_def delete_template_def path raises bind_def sum.case)
  have absent: "example_fs (joinpath (templates_dir example_manager)
      (example_long_name @ py ''.json'')) = None"
    by (simp add: example_fs_def example_manager_def joinpath_def)
  from blank stripped nonempty long absent show ?thesis
    by simp
qed


end
